theory Spec2Isabelle
  imports Complex_Main "HOL-Library.Sublist"
begin

section \<open>JavaScript values used by the script\<close>

text \<open>
  A JavaScript string is modelled by the list of its code units, for code units below 256
  (the Latin-1 range); \<open>trim\<close> and \<open>toLowerCase\<close> are written out in full on that range.
  The pictographs of the script's own messages lie outside it: each is written as the
  bytes of its UTF-8 encoding. Those bytes only ever travel to the console; they never
  reach \<open>trim\<close>, \<open>toLowerCase\<close>, \<open>split\<close> or \<open>includes\<close>.
\<close>

text \<open>White space and line terminators of ECMAScript below code unit 256:
  TAB, LF, VT, FF, CR, SPACE and NBSP.\<close>

definition isWhiteSpace :: "char \<Rightarrow> bool" where
  "isWhiteSpace c = (c \<in> set [CHR 0x09, CHR 0x0A, CHR 0x0B, CHR 0x0C, CHR 0x0D, CHR 0x20, CHR 0xA0])"

text \<open>\<open>String.prototype.trim\<close>: white space is removed at both ends.\<close>

definition trim :: "string \<Rightarrow> string" where
  "trim s = rev (dropWhile isWhiteSpace (rev (dropWhile isWhiteSpace s)))"

text \<open>\<open>String.prototype.toLowerCase\<close> on Latin-1: A-Z and the accented capitals
  U+00C0..U+00DE (without the multiplication sign U+00D7) move up by 32.\<close>

definition lowerChar :: "char \<Rightarrow> char" where
  "lowerChar c = (let n = (of_char c :: nat) in
     if (65 \<le> n \<and> n \<le> 90) \<or> (192 \<le> n \<and> n \<le> 222 \<and> n \<noteq> 215)
     then char_of (n + 32) else c)"

definition toLowerCase :: "string \<Rightarrow> string" where
  "toLowerCase s = map lowerChar s"

text \<open>\<open>s.split('\n')\<close>: the pieces between line feeds; never an empty array.\<close>

fun split_nl :: "string \<Rightarrow> string list" where
  "split_nl [] = [[]]"
| "split_nl (c # cs) =
     (if c = CHR 0x0A then [] # split_nl cs
      else (case split_nl cs of [] \<Rightarrow> [[c]] | l # ls \<Rightarrow> (c # l) # ls))"

text \<open>\<open>String.prototype.includes\<close>: the argument occurs somewhere as a contiguous piece.\<close>

fun includes_str :: "string \<Rightarrow> string \<Rightarrow> bool" where
  "includes_str [] t = (t = [])"
| "includes_str (c # cs) t = (prefix t (c # cs) \<or> includes_str cs t)"

text \<open>\<open>Array.prototype.includes\<close> on an array of strings.\<close>

definition arrayIncludes :: "string list \<Rightarrow> string \<Rightarrow> bool" where
  "arrayIncludes xs x = (x \<in> set xs)"

text \<open>Truthiness of a value that is a string or \<open>null\<close>: \<open>null\<close> and the empty
  string are falsy.\<close>

fun truthy :: "string option \<Rightarrow> bool" where
  "truthy None = False"
| "truthy (Some s) = (s \<noteq> [])"

text \<open>A non-negative integer inside a template literal: its decimal digits.\<close>

definition digit :: "nat \<Rightarrow> char" where
  "digit d = char_of (48 + d)"

fun digits :: "nat \<Rightarrow> nat \<Rightarrow> string" where
  "digits 0 n = []"
| "digits (Suc k) n = (if n < 10 then [digit n] else digits k (n div 10) @ [digit (n mod 10)])"

definition numberToString :: "nat \<Rightarrow> string" where
  "numberToString n = digits (Suc n) n"

subsection \<open>Numbers\<close>

text \<open>
  \<open>Math.round((passed / total) * 100)\<close> is computed on IEEE 754 binary64 numbers. A
  non-negative number is a rational here, and each arithmetic operation rounds its exact
  result to the nearest binary64 value, ties to even: 53 significant bits in the binade
  of the value, the spacing \<open>2^-1074\<close> below \<open>2^-1022\<close>. Values of \<open>2^1024\<close> and
  more are not modelled (the script divides a count by a larger count and multiplies by
  100).
\<close>

definition roundTiesToEven :: "rat \<Rightarrow> int" where
  "roundTiesToEven x = (let f = \<lfloor>x\<rfloor>; d = x - of_int f in
     if d < 1 / 2 then f else if 1 / 2 < d then f + 1 else if even f then f else f + 1)"

text \<open>How often \<open>x < 1\<close> doubles before it reaches 1 (at most \<open>k\<close> times), and how
  often \<open>x \<ge> 2\<close> halves before it falls below 2.\<close>

fun doublings :: "nat \<Rightarrow> rat \<Rightarrow> nat" where
  "doublings 0 x = 0"
| "doublings (Suc k) x = (if 1 \<le> x then 0 else Suc (doublings k (2 * x)))"

fun halvings :: "nat \<Rightarrow> rat \<Rightarrow> nat" where
  "halvings 0 x = 0"
| "halvings (Suc k) x = (if x < 2 then 0 else Suc (halvings k (x / 2)))"

definition binade :: "rat \<Rightarrow> int" where
  "binade x = (if x < 1 then - int (doublings 1022 x) else int (halvings 1023 x))"

definition pow2 :: "int \<Rightarrow> rat" where
  "pow2 e = (if 0 \<le> e then 2 ^ nat e else 1 / 2 ^ nat (- e))"

definition binary64 :: "rat \<Rightarrow> rat" where
  "binary64 x = (if x = 0 then 0
     else let ulp = pow2 (binade x - 52) in of_int (roundTiesToEven (x / ulp)) * ulp)"

text \<open>\<open>Math.round\<close>: the nearest integer, a tie going towards plus infinity.\<close>

definition Math_round :: "rat \<Rightarrow> int" where
  "Math_round x = \<lfloor>x + 1 / 2\<rfloor>"

section \<open>The host and the state of a run\<close>

text \<open>
  What the script asks of Node.js and of the machine is a parameter: the command line,
  \<open>os.platform()\<close>, \<open>os.homedir()\<close>, \<open>process.cwd()\<close>, \<open>process.env\<close>,
  \<open>fs.existsSync\<close>, \<open>path.join\<close> and \<open>execSync\<close>. \<open>execSync env h c\<close> is the
  standard output of command \<open>c\<close> when the commands \<open>h\<close> have been run before it, and
  \<open>None\<close> when \<open>execSync\<close> throws (command not found, non-zero exit status).
\<close>

record env =
  argv :: "string list"
  platform :: string
  homedir :: string
  cwd :: string
  getenv :: "string \<Rightarrow> string option"
  existsSync :: "string \<Rightarrow> bool"
  path_join :: "string list \<Rightarrow> string"
  execSync :: "string list \<Rightarrow> string \<Rightarrow> string option"

text \<open>
  The six arrays of \<open>results\<close>, the calls of \<open>console.log\<close> so far (one entry per
  call) and the commands handed to \<open>execSync\<close> so far.
\<close>

record state =
  passed :: "string list"
  failed :: "string list"
  warnings :: "string list"
  critical :: "string list"
  important :: "string list"
  optional :: "string list"
  console :: "string list"
  cmds :: "string list"

definition init :: state where
  "init = \<lparr>passed = [], failed = [], warnings = [], critical = [], important = [],
            optional = [], console = [], cmds = []\<rparr>"

definition push_passed :: "string \<Rightarrow> state \<Rightarrow> state" where
  "push_passed x st = st\<lparr>passed := passed st @ [x]\<rparr>"

definition push_failed :: "string \<Rightarrow> state \<Rightarrow> state" where
  "push_failed x st = st\<lparr>failed := failed st @ [x]\<rparr>"

definition push_warnings :: "string \<Rightarrow> state \<Rightarrow> state" where
  "push_warnings x st = st\<lparr>warnings := warnings st @ [x]\<rparr>"

definition console_log :: "string \<Rightarrow> state \<Rightarrow> state" where
  "console_log s st = st\<lparr>console := console st @ [s]\<rparr>"

datatype color = Reset | Bright | Green | Red | Yellow | Blue | Cyan

fun colors :: "color \<Rightarrow> string" where
  "colors Reset = CHR 0x1B # ''[0m''"
| "colors Bright = CHR 0x1B # ''[1m''"
| "colors Green = CHR 0x1B # ''[32m''"
| "colors Red = CHR 0x1B # ''[31m''"
| "colors Yellow = CHR 0x1B # ''[33m''"
| "colors Blue = CHR 0x1B # ''[34m''"
| "colors Cyan = CHR 0x1B # ''[36m''"

datatype status = Success | Failure | Warning | Info

fun symbols :: "status \<Rightarrow> string" where
  "symbols Success = [CHR 0xE2, CHR 0x9C, CHR 0x93]"
| "symbols Failure = [CHR 0xE2, CHR 0x9C, CHR 0x97]"
| "symbols Warning = [CHR 0xE2, CHR 0x9A, CHR 0xA0]"
| "symbols Info = [CHR 0xE2, CHR 0x84, CHR 0xB9]"

definition HELP_TEXT :: string where
  "HELP_TEXT = concat (map (\<lambda>l. CHR 0x0A # l)
    [''VS Code Mobile Development Setup Verification Script'',
     ''===================================================='',
     [],
     ''USAGE:'',
     ''  npx @digitalfutures/vscode-setup-check          Run verification checks'',
     ''  npx @digitalfutures/vscode-setup-check --help   Show this help message'',
     [],
     ''WHAT THIS SCRIPT DOES:'',
     ''  Automatically verifies your development environment setup including:'',
     ''  - Software installation (Node.js, VS Code, Git)'',
     ''  - VS Code extensions (GitLens, p5js, Live Server, etc.)'',
     ''  - Git configuration (username, email)'',
     ''  - Repository status and structure (if run from a repo)'',
     [],
     ''OUTPUT:'',
     ''  '' @ [CHR 0xE2, CHR 0x9C, CHR 0x93] @ '' Green checkmarks = Passed'',
     ''  '' @ [CHR 0xE2, CHR 0x9C, CHR 0x97] @ '' Red X marks = Failed (with fix instructions)'',
     ''  '' @ [CHR 0xE2, CHR 0x9A, CHR 0xA0] @ '' Yellow warnings = Attention needed'',
     [],
     ''CRITICALITY LEVELS:'',
     ''  '' @ [CHR 0xF0, CHR 0x9F, CHR 0x94, CHR 0xB4] @ '' CRITICAL   - Must be fixed for development to work'',
     ''  '' @ [CHR 0xF0, CHR 0x9F, CHR 0x9F, CHR 0xA1] @ '' IMPORTANT  - Recommended for full functionality'',
     ''  '' @ [CHR 0xF0, CHR 0x9F, CHR 0x9F, CHR 0xA2] @ '' OPTIONAL   - Nice to have, but not required'',
     [],
     ''TROUBLESHOOTING:'',
     ''  Each failed check includes:'',
     ''  - Why it'' @ [CHR 0x27] @ ''s important (criticality level)'',
     ''  - How to fix it (automated script or manual steps)'',
     ''  - Links to relevant documentation'',
     [],
     ''For detailed setup instructions, see: '',
     ''https://github.com/DigitalFuturesOCADU/atelier1-fall2025/tree/main/guide'']) @ [CHR 0x0A]"

text \<open>\<open>executeCommand\<close>: the trimmed output, or \<open>null\<close> when \<open>execSync\<close> throws.\<close>

definition executeCommand :: "env \<Rightarrow> string \<Rightarrow> state \<Rightarrow> string option \<times> state" where
  "executeCommand env command st =
     (case execSync env (cmds st) command of
        Some output \<Rightarrow> Some (trim output)
      | None \<Rightarrow> None,
      st\<lparr>cmds := cmds st @ [command]\<rparr>)"

definition whichCode :: "env \<Rightarrow> string" where
  "whichCode env = (if platform env = ''win32'' then ''where code.cmd'' else ''which code'')"

text \<open>\<open>process.env.X || d\<close>.\<close>

definition getenv_or :: "env \<Rightarrow> string \<Rightarrow> string \<Rightarrow> string" where
  "getenv_or env x d = (if truthy (getenv env x) then the (getenv env x) else d)"

definition possiblePaths :: "env \<Rightarrow> string list" where
  "possiblePaths env =
     (if platform env = ''darwin'' then
        [''/Applications/Visual Studio Code.app/Contents/Resources/app/bin/code'',
         path_join env [homedir env, ''Applications/Visual Studio Code.app/Contents/Resources/app/bin/code'']]
      else if platform env = ''win32'' then
        [path_join env [getenv_or env ''LOCALAPPDATA'' [], ''Programs'', ''Microsoft VS Code'', ''bin'', ''code.cmd''],
         path_join env [getenv_or env ''PROGRAMFILES'' (''C:'' @ [CHR 0x5C] @ ''Program Files''), ''Microsoft VS Code'', ''bin'', ''code.cmd''],
         path_join env [getenv_or env ''PROGRAMFILES(X86)'' (''C:'' @ [CHR 0x5C] @ ''Program Files (x86)''), ''Microsoft VS Code'', ''bin'', ''code.cmd'']]
      else
        [''/usr/bin/code'',
         ''/usr/local/bin/code'',
         path_join env [homedir env, ''.vscode-server'', ''bin'', ''code'']])"

definition findVSCodePath :: "env \<Rightarrow> state \<Rightarrow> string option \<times> state" where
  "findVSCodePath env st =
     (case executeCommand env (whichCode env) st of (inPath, st1) \<Rightarrow>
        if truthy inPath then (Some (if platform env = ''win32'' then ''code.cmd'' else ''code''), st1)
        else (find (existsSync env) (possiblePaths env), st1))"

definition print :: "string \<Rightarrow> color \<Rightarrow> state \<Rightarrow> state" where
  "print message color st = console_log (colors color @ message @ colors Reset) st"

definition printHeader :: "string \<Rightarrow> state \<Rightarrow> state" where
  "printHeader title st =
     console_log (replicate 60 CHR ''='' @ [CHR 0x0A])
       (print title Bright
         (console_log (CHR 0x0A # replicate 60 CHR ''='') st))"

datatype criticality = CRITICAL | IMPORTANT | OPTIONAL

fun criticalityName :: "criticality \<Rightarrow> string" where
  "criticalityName CRITICAL = ''CRITICAL''"
| "criticalityName IMPORTANT = ''IMPORTANT''"
| "criticalityName OPTIONAL = ''OPTIONAL''"

fun criticalityColors :: "criticality \<Rightarrow> color" where
  "criticalityColors CRITICAL = Red"
| "criticalityColors IMPORTANT = Yellow"
| "criticalityColors OPTIONAL = Green"

fun critSymbols :: "criticality \<Rightarrow> string" where
  "critSymbols CRITICAL = [CHR 0xF0, CHR 0x9F, CHR 0x94, CHR 0xB4]"
| "critSymbols IMPORTANT = [CHR 0xF0, CHR 0x9F, CHR 0x9F, CHR 0xA1]"
| "critSymbols OPTIONAL = [CHR 0xF0, CHR 0x9F, CHR 0x9F, CHR 0xA2]"

text \<open>\<open>options.fix\<close> is an array of steps or a single text.\<close>

datatype fix_arg = Steps "string list" | Text string

fun truthy_fix :: "fix_arg option \<Rightarrow> bool" where
  "truthy_fix None = False"
| "truthy_fix (Some (Steps xs)) = True"
| "truthy_fix (Some (Text s)) = (s \<noteq> [])"

record options =
  criticality :: "criticality option"
  fix_opt :: "fix_arg option"
  link :: "string option"

definition no_options :: options where
  "no_options = \<lparr>criticality = None, fix_opt = None, link = None\<rparr>"

text \<open>The \<open>if\<close> chain that files the message of a failure under its criticality.\<close>

fun push_bucket :: "criticality \<Rightarrow> string \<Rightarrow> state \<Rightarrow> state" where
  "push_bucket CRITICAL message st = st\<lparr>critical := critical st @ [message]\<rparr>"
| "push_bucket IMPORTANT message st = st\<lparr>important := important st @ [message]\<rparr>"
| "push_bucket OPTIONAL message st = st\<lparr>optional := optional st @ [message]\<rparr>"

text \<open>\<open>options.fix.forEach((step, index) => ...)\<close>, from index \<open>i\<close> on.\<close>

fun logSteps :: "nat \<Rightarrow> string list \<Rightarrow> state \<Rightarrow> state" where
  "logSteps i [] st = st"
| "logSteps i (step # steps) st =
     logSteps (i + 1) steps (console_log (''     '' @ numberToString (i + 1) @ ''. '' @ step) st)"

definition showCriticality :: "status \<Rightarrow> string \<Rightarrow> options \<Rightarrow> state \<Rightarrow> state" where
  "showCriticality status message opts st =
     (case criticality opts of
        Some c \<Rightarrow>
          if status = Failure then
            push_bucket c message
              (print (''  '' @ critSymbols c @ '' Criticality: '' @ criticalityName c) (criticalityColors c) st)
          else st
      | None \<Rightarrow> st)"

definition showFix :: "status \<Rightarrow> options \<Rightarrow> state \<Rightarrow> state" where
  "showFix status opts st =
     (if status = Failure \<and> truthy_fix (fix_opt opts) then
        (case fix_opt opts of
           Some (Steps steps) \<Rightarrow> logSteps 0 steps (print (''  '' @ [CHR 0xF0, CHR 0x9F, CHR 0x92, CHR 0xA1] @ '' How to fix:'') Cyan st)
         | Some (Text s) \<Rightarrow> console_log (''     '' @ s) (print (''  '' @ [CHR 0xF0, CHR 0x9F, CHR 0x92, CHR 0xA1] @ '' How to fix:'') Cyan st)
         | None \<Rightarrow> st)
      else st)"

definition showLink :: "options \<Rightarrow> state \<Rightarrow> state" where
  "showLink opts st =
     (if truthy (link opts) then print (''  '' @ [CHR 0xF0, CHR 0x9F, CHR 0x93, CHR 0x96] @ '' Guide: '' @ the (link opts)) Blue st else st)"

definition printResult :: "status \<Rightarrow> string \<Rightarrow> string \<Rightarrow> options \<Rightarrow> state \<Rightarrow> state" where
  "printResult status message details opts st =
     (let color = (if status = Success then Green else if status = Failure then Red else Yellow);
          st1 = print (symbols status @ '' '' @ message) color st;
          st2 = (if details \<noteq> [] then console_log (''  '' @ details) st1 else st1);
          st3 = showCriticality status message opts st2;
          st4 = showFix status opts st3;
          st5 = showLink opts st4
      in if status = Failure \<or> (status = Warning \<and> truthy_fix (fix_opt opts))
         then console_log [] st5 else st5)"

definition guide :: string where
  "guide = ''https://github.com/DigitalFuturesOCADU/atelier1-fall2025/tree/main/guide''"

section \<open>The probes\<close>

subsection \<open>\<open>checkVSCode\<close>\<close>

text \<open>\<open>version.split('\n')[0]\<close>.\<close>

definition firstLine :: "string \<Rightarrow> string" where
  "firstLine s = (case split_nl s of [] \<Rightarrow> ''undefined'' | l # ls \<Rightarrow> l)"

definition notInPathFix :: "env \<Rightarrow> string list" where
  "notInPathFix env =
     (if platform env = ''darwin'' then
        [''To add VS Code to PATH:'',
         ''  1. Open VS Code'',
         ''  2. Press Cmd+Shift+P to open Command Palette'',
         ''  3. Type '' @ [CHR 0x22] @ ''shell command'' @ [CHR 0x22],
         ''  4. Select '' @ [CHR 0x22] @ ''Shell Command: Install '' @ [CHR 0x27] @ ''code'' @ [CHR 0x27] @ '' command in PATH'' @ [CHR 0x22],
         ''  5. Restart terminal'',
         [],
         ''Note: This is OPTIONAL. Extensions check will still work.'']
      else if platform env = ''win32'' then
        [''To add VS Code to PATH:'',
         ''  1. Reinstall VS Code from: https://code.visualstudio.com/download'',
         ''  2. During installation, check '' @ [CHR 0x22] @ ''Add to PATH'' @ [CHR 0x22] @ '' option'',
         ''  3. Restart your computer'',
         [],
         ''Note: This is OPTIONAL. Extensions check will still work.'']
      else
        [''Add VS Code to your PATH manually or reinstall from:'',
         ''https://code.visualstudio.com/download''])"

text \<open>The end of \<open>checkVSCode\<close>, reached when no path was found or the version query
  gave nothing.\<close>

definition vscodeNotInstalled :: "env \<Rightarrow> state \<Rightarrow> string option \<times> state" where
  "vscodeNotInstalled env st =
     (let fixSteps =
        [''Download and install VS Code from: https://code.visualstudio.com/download'',
         (if platform env = ''darwin'' then ''For Mac: Download the .dmg file and drag to Applications''
          else if platform env = ''win32'' then ''For Windows: Download the installer and check '' @ [CHR 0x22] @ ''Add to PATH'' @ [CHR 0x22]
          else ''Follow the installation instructions for your OS''),
         ''Restart your terminal after installation''];
          st1 = printResult Failure (''VS Code is NOT installed'') (''Required for development'')
                  \<lparr>criticality = Some CRITICAL, fix_opt = Some (Steps fixSteps), link = Some guide\<rparr> st
      in (None, push_failed (''VS Code not found'') st1))"

definition vscodeInstalled :: "env \<Rightarrow> string \<Rightarrow> string \<Rightarrow> state \<Rightarrow> string option \<times> state" where
  "vscodeInstalled env vscodePath version st =
     (let versionNumber = firstLine version in
      case executeCommand env (whichCode env) st of (inPath, st1) \<Rightarrow>
        if truthy inPath then
          (Some vscodePath,
           push_passed (''VS Code in PATH'')
             (printResult Success (''VS Code is installed and in PATH'') (''Version: '' @ versionNumber)
                no_options st1))
        else
          (let st2 = push_passed (''VS Code installed'')
                       (printResult Success (''VS Code is installed'') (''Version: '' @ versionNumber)
                          no_options st1);
               st3 = printResult Warning (''VS Code is NOT in PATH'')
                       (''Recommended for better terminal integration'')
                       \<lparr>criticality = Some OPTIONAL, fix_opt = Some (Steps (notInPathFix env)),
                        link = None\<rparr> st2
           in (Some vscodePath, push_warnings (''VS Code not in PATH'') st3)))"

definition checkVSCode :: "env \<Rightarrow> state \<Rightarrow> string option \<times> state" where
  "checkVSCode env st =
     (case findVSCodePath env (printHeader (''Checking VS Code Installation'') st) of
        (None, st1) \<Rightarrow> vscodeNotInstalled env st1
      | (Some vscodePath, st1) \<Rightarrow>
          if vscodePath = [] then vscodeNotInstalled env st1
          else
            (case executeCommand env ([CHR 0x22] @ vscodePath @ [CHR 0x22] @ '' --version'') st1 of
               (None, st2) \<Rightarrow> vscodeNotInstalled env st2
             | (Some version, st2) \<Rightarrow>
                 if version = [] then vscodeNotInstalled env st2
                 else vscodeInstalled env vscodePath version st2))"

subsection \<open>\<open>checkExtensions\<close>\<close>

record extInfo =
  ext_name :: string
  ext_criticality :: criticality
  ext_reason :: string

text \<open>The table \<open>requiredExtensions\<close>, in the order in which \<open>Object.entries\<close>
  lists it.\<close>

definition requiredExtensions :: "(string \<times> extInfo) list" where
  "requiredExtensions =
     [(''eamodio.gitlens'',
       \<lparr>ext_name = ''GitLens'', ext_criticality = IMPORTANT,
        ext_reason = ''Enhances Git workflow and visualization''\<rparr>),
      (''acidic9.p5js-snippets'',
       \<lparr>ext_name = ''p5js Snippets'', ext_criticality = IMPORTANT,
        ext_reason = ''Provides code snippets for P5.js development''\<rparr>),
      (''ultamatum.p5-project-creator'',
       \<lparr>ext_name = ''P5 Project Creator'', ext_criticality = CRITICAL,
        ext_reason = ''Required to create P5.js projects in VS Code''\<rparr>),
      (''ritwickdey.liveserver'',
       \<lparr>ext_name = ''Live Server'', ext_criticality = CRITICAL,
        ext_reason = ''Required to run local development server''\<rparr>),
      (''github.vscode-github-actions'',
       \<lparr>ext_name = ''GitHub Actions'', ext_criticality = OPTIONAL,
        ext_reason = ''Helpful for managing GitHub deployments''\<rparr>)]"

text \<open>The body of the loop over the table, for one entry.\<close>

definition checkExtension ::
  "env \<Rightarrow> string \<Rightarrow> string list \<Rightarrow> string \<times> extInfo \<Rightarrow> state \<Rightarrow> state" where
  "checkExtension env vscodePath installedList entry st =
     (case entry of (extId, extInfo) \<Rightarrow>
        if arrayIncludes installedList (toLowerCase extId) then
          push_passed (''Extension: '' @ ext_name extInfo)
            (printResult Success (ext_name extInfo @ '' is installed'') [] no_options st)
        else
          (case executeCommand env (whichCode env) st of (inPath, st1) \<Rightarrow>
             let installCommand =
                   (if truthy inPath then ''code --install-extension '' @ extId
                    else [CHR 0x22] @ vscodePath @ [CHR 0x22] @ '' --install-extension '' @ extId);
                 st2 = printResult Failure (ext_name extInfo @ '' is NOT installed'') (ext_reason extInfo)
                         \<lparr>criticality = Some (ext_criticality extInfo),
                          fix_opt = Some (Steps
                            [''Quick install: Run this command in terminal:'',
                             ''  '' @ installCommand,
                             [],
                             ''Or install manually:'',
                             ''  1. Open VS Code'',
                             ''  2. Press Cmd+Shift+X (Mac) or Ctrl+Shift+X (Windows)'',
                             ''  3. Search for '' @ [CHR 0x22] @ ext_name extInfo @ [CHR 0x22],
                             ''  4. Click Install'']),
                          link = Some guide\<rparr> st1
             in push_failed (''Extension: '' @ ext_name extInfo) st2))"

definition skipNoVSCode :: "state \<Rightarrow> state" where
  "skipNoVSCode st =
     console_log (''  Install VS Code first, then run this script again'')
       (print ([CHR 0xE2, CHR 0x8A, CHR 0x98] @ '' Skipping extensions check - VS Code not found'') Yellow st)"

definition skipNoList :: "state \<Rightarrow> state" where
  "skipNoList st =
     console_log (''  Or manually verify extensions in VS Code (Cmd/Ctrl+Shift+X)'')
       (console_log (''  This might be a temporary issue. Try running the script again.'')
         (print ([CHR 0xE2, CHR 0x8A, CHR 0x98] @ '' Could not retrieve extensions list'') Yellow st))"

definition checkExtensions :: "env \<Rightarrow> string option \<Rightarrow> state \<Rightarrow> state" where
  "checkExtensions env vscodePath st =
     (let st0 = printHeader (''Checking VS Code Extensions'') st in
      case vscodePath of
        None \<Rightarrow> skipNoVSCode st0
      | Some p \<Rightarrow>
          if p = [] then skipNoVSCode st0
          else
            (case executeCommand env ([CHR 0x22] @ p @ [CHR 0x22] @ '' --list-extensions'') st0 of
               (None, st1) \<Rightarrow> skipNoList st1
             | (Some installedExtensions, st1) \<Rightarrow>
                 if installedExtensions = [] then skipNoList st1
                 else
                   (let installedList = split_nl (toLowerCase installedExtensions)
                    in fold (checkExtension env p installedList) requiredExtensions st1)))"

subsection \<open>\<open>checkGit\<close>\<close>

definition gitNotInstalled :: "env \<Rightarrow> state \<Rightarrow> state" where
  "gitNotInstalled env st =
     (let fixSteps =
        (if platform env = ''darwin'' then
           [''Install Xcode Command Line Tools:'',
            ''  Run: xcode-select --install'',
            ''Follow the installation prompts'',
            ''Or download Git from: https://git-scm.com/downloads'']
         else
           [''Download Git from: https://git-scm.com/downloads'',
            ''Run the installer'',
            ''Use default settings'',
            ''Restart your terminal after installation''])
      in push_failed (''Git not found'')
           (printResult Failure (''Git is NOT installed'') (''Required for version control'')
              \<lparr>criticality = Some CRITICAL, fix_opt = Some (Steps fixSteps), link = Some guide\<rparr> st))"

definition checkUserName :: "string option \<Rightarrow> state \<Rightarrow> state" where
  "checkUserName userName st =
     (if truthy userName then
        push_passed (''Git user.name set'')
          (printResult Success (''Git user.name is configured'') (''Name: '' @ the userName) no_options st)
      else
        push_failed (''Git user.name not set'')
          (printResult Failure (''Git user.name is NOT configured'') (''Required for Git commits'')
             \<lparr>criticality = Some CRITICAL,
              fix_opt = Some (Steps
                [''Run this command in terminal:'',
                 ''  git config --global user.name '' @ [CHR 0x22] @ ''Your Full Name'' @ [CHR 0x22],
                 [],
                 ''Example:'',
                 ''  git config --global user.name '' @ [CHR 0x22] @ ''Jane Smith'' @ [CHR 0x22]]),
              link = None\<rparr> st))"

definition checkUserEmail :: "string option \<Rightarrow> state \<Rightarrow> state" where
  "checkUserEmail userEmail st =
     (if truthy userEmail then
        (let st1 = push_passed (''Git user.email set'')
                     (printResult Success (''Git user.email is configured'')
                        (''Email: '' @ the userEmail) no_options st)
         in if includes_str (the userEmail) ''@ocadu.ca'' \<or> includes_str (the userEmail) ''@ocad.ca'' then
              push_passed (''OCADU email configured'')
                (printResult Success (''Using OCADU email address'') [] no_options st1)
            else
              push_warnings (''Non-OCADU email'')
                (printResult Warning (''Not using OCADU email address'')
                   (''Recommended for GitHub Education benefits'')
                   \<lparr>criticality = Some OPTIONAL,
                    fix_opt = Some (Steps
                      [''To use your OCADU email:'',
                       ''  git config --global user.email '' @ [CHR 0x22] @ ''your.email@ocadu.ca'' @ [CHR 0x22],
                       [],
                       ''Current email: '' @ the userEmail,
                       [],
                       ''Note: This is OPTIONAL. Your current setup works fine.'',
                       ''OCADU email only needed for GitHub Education benefits.'']),
                    link = None\<rparr> st1))
      else
        push_failed (''Git user.email not set'')
          (printResult Failure (''Git user.email is NOT configured'') (''Required for Git commits'')
             \<lparr>criticality = Some CRITICAL,
              fix_opt = Some (Steps
                [''Run this command in terminal:'',
                 ''  git config --global user.email '' @ [CHR 0x22] @ ''your.email@ocadu.ca'' @ [CHR 0x22],
                 [],
                 ''Example:'',
                 ''  git config --global user.email '' @ [CHR 0x22] @ ''jane.smith@ocadu.ca'' @ [CHR 0x22]]),
              link = None\<rparr> st))"

definition checkGit :: "env \<Rightarrow> state \<Rightarrow> state" where
  "checkGit env st =
     (case executeCommand env (''git --version'') (printHeader (''Checking Git Installation & Configuration'') st) of
        (gitVersion, st1) \<Rightarrow>
          if truthy gitVersion then
            (let st2 = push_passed (''Git installed'')
                         (printResult Success (''Git is installed'') (the gitVersion) no_options st1)
             in case executeCommand env (''git config --global user.name'') st2 of (userName, st3) \<Rightarrow>
                case executeCommand env (''git config --global user.email'') st3 of (userEmail, st4) \<Rightarrow>
                  checkUserEmail userEmail (checkUserName userName st4))
          else gitNotInstalled env st1)"

subsection \<open>\<open>checkNode\<close>\<close>

definition checkNode :: "env \<Rightarrow> state \<Rightarrow> state" where
  "checkNode env st =
     (case executeCommand env (''node --version'') (printHeader (''Checking Node.js Installation'') st) of
        (nodeVersion, st1) \<Rightarrow>
      case executeCommand env (''npm --version'') st1 of (npmVersion, st2) \<Rightarrow>
        let st3 =
              (if truthy nodeVersion then
                 push_passed (''Node.js installed'')
                   (printResult Success (''Node.js is installed'') (the nodeVersion) no_options st2)
               else
                 push_failed (''Node.js not found'')
                   (printResult Failure (''Node.js is NOT installed'')
                      (''Required to run this verification script'')
                      \<lparr>criticality = Some IMPORTANT,
                       fix_opt = Some (Steps
                         [''Download Node.js LTS version from: https://nodejs.org/'',
                          ''Run the installer (includes npm)'',
                          ''Use default installation settings'',
                          ''Restart terminal after installation'',
                          [],
                          ''Note: You'' @ [CHR 0x27] @ ''re seeing this message because Node.js IS installed'',
                          ''(otherwise this script wouldn'' @ [CHR 0x27] @ ''t run!). This check failed due to'',
                          ''a technical issue, but you can safely ignore it.'']),
                       link = Some guide\<rparr> st2))
        in if truthy npmVersion then
             push_passed (''npm installed'')
               (printResult Success (''npm is installed'') (''Version: '' @ the npmVersion) no_options st3)
           else
             push_warnings (''npm not found'')
               (printResult Warning (''npm is NOT installed'') (''Useful for managing packages'')
                  \<lparr>criticality = Some OPTIONAL,
                   fix_opt = Some (Steps
                     [''npm usually comes with Node.js'',
                      ''Try reinstalling Node.js from: https://nodejs.org/'',
                      [],
                      ''Note: Not required for basic P5.js development'']),
                   link = None\<rparr> st3))"

subsection \<open>\<open>checkLocalRepo\<close>\<close>

definition checkRemote :: "env \<Rightarrow> state \<Rightarrow> state" where
  "checkRemote env st =
     (case executeCommand env (''git remote get-url origin'') st of (remoteUrl, st1) \<Rightarrow>
        if truthy remoteUrl then
          (let st2 = push_passed (''Remote configured'')
                       (printResult Success (''Remote repository configured'') (the remoteUrl) no_options st1)
           in if includes_str (the remoteUrl) ''github.com'' then
                push_passed (''GitHub repository'')
                  (printResult Success (''Repository is hosted on GitHub'') [] no_options st2)
              else st2)
        else
          push_warnings (''No remote configured'')
            (printResult Warning (''No remote repository configured'')
               (''Needed for GitHub Pages deployment'')
               \<lparr>criticality = Some IMPORTANT,
                fix_opt = Some (Steps
                  [''Create a GitHub repository first (if you haven'' @ [CHR 0x27] @ ''t):'',
                   ''  1. Go to https://github.com/new'',
                   ''  2. Create a new repository'',
                   [],
                   ''Then connect it to this local repository:'',
                   ''  git remote add origin https://github.com/USERNAME/REPO-NAME.git'',
                   ''  git branch -M main'',
                   ''  git push -u origin main'',
                   [],
                   ''Replace USERNAME and REPO-NAME with your details'']),
                link = Some guide\<rparr> st1))"

definition checkBranch :: "env \<Rightarrow> state \<Rightarrow> state" where
  "checkBranch env st =
     (case executeCommand env (''git branch --show-current'') st of (branch, st1) \<Rightarrow>
        if truthy branch then
          push_passed (''Branch: '' @ the branch)
            (printResult Success (''Current branch: '' @ the branch) [] no_options st1)
        else st1)"

definition checkStatus :: "env \<Rightarrow> state \<Rightarrow> state" where
  "checkStatus env st =
     (case executeCommand env (''git status --porcelain'') st of (status, st1) \<Rightarrow>
        if truthy status then
          (let fileCount = length (split_nl (trim (the status)))
           in push_warnings (''Uncommitted changes'')
                (printResult Warning
                   (''You have '' @ numberToString fileCount @ '' uncommitted change(s)'')
                   (''Not critical, but good practice to commit regularly'')
                   \<lparr>criticality = Some OPTIONAL,
                    fix_opt = Some (Steps
                      [''To see what files changed:'',
                       ''  git status'',
                       [],
                       ''To commit your changes:'',
                       ''  git add .'',
                       ''  git commit -m '' @ [CHR 0x22] @ ''Describe your changes'' @ [CHR 0x22],
                       ''  git push'',
                       [],
                       ''Note: This is OPTIONAL. Uncommitted changes don'' @ [CHR 0x27] @ ''t break anything.'']),
                    link = None\<rparr> st1))
        else
          push_passed (''Clean working directory'')
            (printResult Success (''Working directory is clean'') [] no_options st1))"

definition notARepo :: "string \<Rightarrow> state \<Rightarrow> state" where
  "notARepo currentDir st =
     push_warnings (''Not in Git repository'')
       (printResult Warning (''Current directory is NOT a Git repository'')
          (''Run from your project folder for repository checks'')
          \<lparr>criticality = Some OPTIONAL,
           fix_opt = Some (Steps
             [''This is OPTIONAL - you can run this script from anywhere.'',
              ''For repository-specific checks, navigate to your project first:'',
              ''  cd path/to/your/repository'',
              ''  npx @digitalfutures/vscode-setup-check'',
              [],
              ''Or if you don'' @ [CHR 0x27] @ ''t have a repository yet, see the setup guide.'',
              [],
              ''Current directory: '' @ currentDir]),
           link = Some guide\<rparr> st)"

definition checkLocalRepo :: "env \<Rightarrow> state \<Rightarrow> state" where
  "checkLocalRepo env st =
     (let st0 = printHeader (''Checking Local Repository'') st;
          currentDir = cwd env;
          gitDir = path_join env [currentDir, ''.git'']
      in if existsSync env gitDir then
           checkStatus env
             (checkBranch env
               (checkRemote env
                 (push_passed (''Git repository found'')
                   (printResult Success (''Current directory is a Git repository'') [] no_options st0))))
         else notARepo currentDir st0)"

section \<open>The checklist, the summary and the program\<close>

definition printManualChecklist :: "state \<Rightarrow> state" where
  "printManualChecklist st =
     console_log (''   https://github.com/DigitalFuturesOCADU/atelier1-fall2025/tree/main/guide'')
       (print ([CHR 0x0A, CHR 0xF0, CHR 0x9F, CHR 0x93, CHR 0x9A] @ '' Refer to the setup guides at:'') Cyan
         (fold console_log
            [[CHR 0x0A, CHR 0xE2, CHR 0x98, CHR 0x90] @ '' GitHub account created with @ocadu.ca email'',
             [CHR 0xE2, CHR 0x98, CHR 0x90] @ '' Signed into VS Code with GitHub account'',
             [CHR 0xE2, CHR 0x98, CHR 0x90] @ '' GitHub Desktop installed and signed in'',
             [CHR 0xE2, CHR 0x98, CHR 0x90] @ '' GitHub Mobile app installed on phone'',
             [CHR 0xE2, CHR 0x98, CHR 0x90] @ '' GitLens extension authorized in VS Code'',
             [CHR 0xE2, CHR 0x98, CHR 0x90] @ '' GitHub Actions extension authorized in VS Code'',
             [CHR 0xE2, CHR 0x98, CHR 0x90] @ '' GitHub Copilot Pro subscription activated'',
             [CHR 0xE2, CHR 0x98, CHR 0x90] @ '' Two-factor authentication enabled on GitHub'',
             [CHR 0xE2, CHR 0x98, CHR 0x90] @ '' GitHub repository created with Pages enabled'',
             [CHR 0xE2, CHR 0x98, CHR 0x90] @ '' GitHub Actions workflow configured'',
             [CHR 0xE2, CHR 0x98, CHR 0x90] @ '' Repository cloned locally'',
             [CHR 0xE2, CHR 0x98, CHR 0x90] @ '' Can create P5.js project using Command Palette'',
             [CHR 0xE2, CHR 0x98, CHR 0x90] @ '' Live Server can launch local development server'',
             [CHR 0xE2, CHR 0x98, CHR 0x90] @ '' VS Code Tunnel can be created and accessed'',
             [CHR 0xE2, CHR 0x98, CHR 0x90] @ '' Chrome DevTools accessible (F12 or Cmd+Option+I)'']
            (print ([CHR 0x0A] @ ''The following items require manual verification:'') Cyan
              (printHeader (''Manual Verification Checklist'') st))))"

text \<open>\<open>total > 0 ? Math.round((results.passed.length / total) * 100) : 0\<close>, each
  operation on binary64 numbers.\<close>

definition passRate :: "state \<Rightarrow> int" where
  "passRate st =
     (let total = length (passed st) + length (failed st) + length (warnings st)
      in if total > 0
         then Math_round (binary64 (binary64 (of_nat (length (passed st)) / of_nat total) * 100))
         else 0)"

definition printTally :: "state \<Rightarrow> state" where
  "printTally st =
     console_log ([CHR 0x0A] @ ''Completion Rate: '' @ numberToString (nat (passRate st)) @ ''%'')
       (print ([CHR 0xE2, CHR 0x9A, CHR 0xA0] @ '' Warnings: '' @ numberToString (length (warnings st))) Yellow
         (print ([CHR 0xE2, CHR 0x9C, CHR 0x97] @ '' Failed: '' @ numberToString (length (failed st))) Red
           (print ([CHR 0x0A, CHR 0xE2, CHR 0x9C, CHR 0x93] @ '' Passed: '' @ numberToString (length (passed st))) Green st)))"

definition printBreakdown :: "state \<Rightarrow> state" where
  "printBreakdown st =
     (if length (critical st) > 0 \<or> length (important st) > 0 \<or> length (optional st) > 0 then
        (let st1 = console_log ([CHR 0x0A] @ ''Failed Items by Criticality:'') st;
             st2 = (if length (critical st) > 0
                    then print (''  '' @ [CHR 0xF0, CHR 0x9F, CHR 0x94, CHR 0xB4] @ '' Critical: '' @ numberToString (length (critical st))
                                @ '' - Must fix for development to work'') Red st1
                    else st1);
             st3 = (if length (important st) > 0
                    then print (''  '' @ [CHR 0xF0, CHR 0x9F, CHR 0x9F, CHR 0xA1] @ '' Important: '' @ numberToString (length (important st))
                                @ '' - Recommended for full functionality'') Yellow st2
                    else st2)
         in if length (optional st) > 0
            then print (''  '' @ [CHR 0xF0, CHR 0x9F, CHR 0x9F, CHR 0xA2] @ '' Optional: '' @ numberToString (length (optional st))
                        @ '' - Nice to have, not required'') Green st3
            else st3)
      else st)"

text \<open>The four feedback messages, and the \<open>if\<close> chain that prints one of them.\<close>

definition feedbackPerfect :: "state \<Rightarrow> state" where
  "feedbackPerfect st =
     print (''Please complete the manual verification checklist above.'') Cyan
       (print ([CHR 0xF0, CHR 0x9F, CHR 0x8E, CHR 0x89] @ '' Perfect! All automated checks passed!'') Green st)"

definition feedbackOptional :: "state \<Rightarrow> state" where
  "feedbackOptional st =
     print (''You can safely proceed with development.'') Cyan
       (print (''The failed/warning items are OPTIONAL and don'' @ [CHR 0x27] @ ''t affect functionality.'') Cyan
         (print ([CHR 0xE2, CHR 0x9C, CHR 0x85] @ '' Your system is working correctly!'') Green st))"

definition feedbackCritical :: "state \<Rightarrow> state" where
  "feedbackCritical st =
     print (''Review the fix instructions above for each critical item.'') Yellow
       (print ([CHR 0xF0, CHR 0x9F, CHR 0x94, CHR 0xB4] @ '' CRITICAL issues found - these must be fixed!'') Red st)"

definition feedbackRecommended :: "state \<Rightarrow> state" where
  "feedbackRecommended st =
     print (''Your system may work, but fixing these will improve functionality.'') Cyan
       (print ([CHR 0xE2, CHR 0x9A, CHR 0xA0, CHR 0xEF, CHR 0xB8, CHR 0x8F] @ ''  Some recommended items need attention.'') Yellow st)"

definition printFeedback :: "state \<Rightarrow> state" where
  "printFeedback st =
     (if length (failed st) = 0 \<and> length (warnings st) = 0 then feedbackPerfect st
      else if length (critical st) = 0 \<and> length (important st) = 0 then feedbackOptional st
      else if length (critical st) > 0 then feedbackCritical st
      else feedbackRecommended st)"

text \<open>\<open>printSummary\<close> in three parts: what comes before the feedback, the feedback,
  and the closing lines.\<close>

definition summaryHead :: "state \<Rightarrow> state" where
  "summaryHead st =
     console_log [] (printBreakdown (printTally (printHeader (''Setup Verification Summary'') st)))"

definition summaryFoot :: "state \<Rightarrow> state" where
  "summaryFoot st =
     console_log ([CHR 0x0A])
       (console_log ([CHR 0xE2, CHR 0x9D, CHR 0x93] @ '' For help, run: npx @digitalfutures/vscode-setup-check --help'')
         (console_log (''   https://github.com/DigitalFuturesOCADU/atelier1-fall2025/tree/main/guide'')
           (console_log ([CHR 0x0A, CHR 0xF0, CHR 0x9F, CHR 0x93, CHR 0x9A] @ '' For detailed guides, visit:'') st)))"

definition printSummary :: "state \<Rightarrow> state" where
  "printSummary st = summaryFoot (printFeedback (summaryHead st))"

text \<open>\<open>console.clear()\<close> empties the terminal.\<close>

definition console_clear :: "state \<Rightarrow> state" where
  "console_clear st = st\<lparr>console := []\<rparr>"

definition banner :: "state \<Rightarrow> state" where
  "banner st =
     print ([CHR 0xE2, CHR 0x95, CHR 0x9A] @ concat (replicate 60 [CHR 0xE2, CHR 0x95, CHR 0x90]) @ [CHR 0xE2, CHR 0x95, CHR 0x9D]) Cyan
       (print ([CHR 0xE2, CHR 0x95, CHR 0x91] @ ''   VS Code Mobile Development Setup Verification Script    '' @ [CHR 0xE2, CHR 0x95, CHR 0x91]) Cyan
         (print ([CHR 0xE2, CHR 0x95, CHR 0x94] @ concat (replicate 60 [CHR 0xE2, CHR 0x95, CHR 0x90]) @ [CHR 0xE2, CHR 0x95, CHR 0x97]) Cyan st))"

text \<open>The state in which \<open>main\<close> calls \<open>printSummary\<close>: the five probes and the
  checklist have run.\<close>

definition runProbes :: "env \<Rightarrow> state" where
  "runProbes env =
     (case checkVSCode env (checkNode env (banner (console_clear init))) of
        (vscodePath, st) \<Rightarrow>
          printManualChecklist (checkLocalRepo env (checkGit env (checkExtensions env vscodePath st))))"

definition main :: "env \<Rightarrow> state" where
  "main env = printSummary (runProbes env)"

text \<open>The script from its first line: the help flag is looked at before \<open>main\<close> is
  called. The result is the exit status and the final state; \<open>process.exit(0)\<close> ends
  the process at once, and a run that reaches the end of the script ends with status 0
  as well.\<close>

definition program :: "env \<Rightarrow> nat \<times> state" where
  "program env =
     (if arrayIncludes (argv env) ''--help'' \<or> arrayIncludes (argv env) ''-h''
      then (0, console_log HELP_TEXT init)
      else (0, main env))"

section \<open>Notions used in the statements\<close>

text \<open>Lines joined by line feeds, as \<open>lines.join('\n')\<close> builds a text.\<close>

fun join_nl :: "string list \<Rightarrow> string" where
  "join_nl [] = []"
| "join_nl [l] = l"
| "join_nl (l # ls) = l @ CHR 0x0A # join_nl ls"

text \<open>The same letter in the other case, for the letters A-Z and a-z.\<close>

definition swapCase :: "char \<Rightarrow> char" where
  "swapCase c = (let n = (of_char c :: nat) in
     if 65 \<le> n \<and> n \<le> 90 then char_of (n + 32)
     else if 97 \<le> n \<and> n \<le> 122 then char_of (n - 32)
     else c)"

text \<open>Two texts that differ at most in the case of their letters.\<close>

definition sameUpToCase :: "string \<Rightarrow> string \<Rightarrow> bool" where
  "sameUpToCase s t = list_all2 (\<lambda>a b. a = b \<or> a = swapCase b) s t"

text \<open>A Linux machine for the examples: \<open>files\<close> are the paths that exist, and a
  command answers with \<open>answers\<close> whatever ran before it.\<close>

definition host :: "string list \<Rightarrow> string list \<Rightarrow> (string \<times> string) list \<Rightarrow> env" where
  "host args files answers =
     \<lparr>argv = args, platform = ''linux'', homedir = ''/home/student'',
      cwd = ''/home/student/sketch'', getenv = (\<lambda>x. None),
      existsSync = (\<lambda>p. p \<in> set files),
      path_join = (\<lambda>parts. case parts of [] \<Rightarrow> ''.'' | p # ps \<Rightarrow> foldl (\<lambda>a b. a @ ''/'' @ b) p ps),
      execSync = (\<lambda>h. map_of answers)\<rparr>"

text \<open>The number that a text denotes in decimal, for a text of digits without a leading
  zero; no other text denotes a number.\<close>

definition isDigit :: "char \<Rightarrow> bool" where
  "isDigit c = (48 \<le> (of_char c :: nat) \<and> (of_char c :: nat) \<le> 57)"

definition decimalOf :: "string \<Rightarrow> nat option" where
  "decimalOf s =
     (if s \<noteq> [] \<and> list_all isDigit s \<and> (hd s = CHR ''0'' \<longrightarrow> s = ''0'')
      then Some (foldl (\<lambda>a d. 10 * a + (of_char d - 48)) 0 s)
      else None)"

text \<open>The command that lists the extensions of the editor \<open>code\<close>, and two machines on
  which it answers: one lists GitLens in capitals, the other lists a longer identifier
  that contains the identifier of GitLens.\<close>

definition listCode :: string where
  "listCode = [CHR 0x22] @ ''code'' @ [CHR 0x22] @ '' --list-extensions''"

definition capitalsHost :: env where
  "capitalsHost = host [] [] [(listCode, ''EAMODIO.GitLens'' @ [CHR 0x0A] @ ''ritwickdey.LiveServer'' @ [CHR 0x0A])]"

definition insidersHost :: env where
  "insidersHost = host [] [] [(listCode, ''eamodio.gitlens-insiders'' @ [CHR 0x0A] @ ''ritwickdey.LiveServer'' @ [CHR 0x0A])]"

text \<open>A machine in a repository with two changed files, and one in a repository with
  none.\<close>

definition dirtyHost :: env where
  "dirtyHost = host [] [''/home/student/sketch/.git'']
     [(''git remote get-url origin'', ''https://github.com/student/sketch.git'' @ [CHR 0x0A]),
      (''git branch --show-current'', ''main'' @ [CHR 0x0A]),
      (''git status --porcelain'', '' M sketch.js'' @ [CHR 0x0A] @ ''?? notes.txt'' @ [CHR 0x0A])]"

definition cleanHost :: env where
  "cleanHost = host [] [''/home/student/sketch/.git'']
     [(''git remote get-url origin'', ''https://github.com/student/sketch.git'' @ [CHR 0x0A]),
      (''git branch --show-current'', ''main'' @ [CHR 0x0A]),
      (''git status --porcelain'', [CHR 0x0A])]"

text \<open>A machine with the editor at \<open>/usr/bin/code\<close> but not on the search path, and a
  machine whose Git identity uses an address outside the institution.\<close>

definition directPathHost :: env where
  "directPathHost = host [] [''/usr/bin/code'']
     [([CHR 0x22] @ ''/usr/bin/code'' @ [CHR 0x22] @ '' --version'',
       ''1.85.0'' @ [CHR 0x0A] @ ''x64'' @ [CHR 0x0A])]"

definition gmailHost :: env where
  "gmailHost = host [] []
     [(''git --version'', ''git version 2.43.0'' @ [CHR 0x0A]),
      (''git config --global user.name'', ''Sam Student'' @ [CHR 0x0A]),
      (''git config --global user.email'', ''student@gmail.com'' @ [CHR 0x0A])]"

text \<open>The number of items that the summary counts: \<open>total\<close> in \<open>printSummary\<close>.\<close>

definition itemCount :: "state \<Rightarrow> nat" where
  "itemCount st = length (passed st) + length (failed st) + length (warnings st)"

text \<open>The number of messages filed under the three severities.\<close>

definition bucketCount :: "state \<Rightarrow> nat" where
  "bucketCount st = length (critical st) + length (important st) + length (optional st)"

section \<open>What each printing step leaves alone\<close>

lemma console_log_frame [simp]:
  "passed (console_log s st) = passed st" "failed (console_log s st) = failed st"
  "warnings (console_log s st) = warnings st" "critical (console_log s st) = critical st"
  "important (console_log s st) = important st" "optional (console_log s st) = optional st"
  "cmds (console_log s st) = cmds st" "console (console_log s st) = console st @ [s]"
  by (simp_all add: console_log_def)

lemma print_frame [simp]:
  "passed (print m c st) = passed st" "failed (print m c st) = failed st"
  "warnings (print m c st) = warnings st" "critical (print m c st) = critical st"
  "important (print m c st) = important st" "optional (print m c st) = optional st"
  "cmds (print m c st) = cmds st"
  "console (print m c st) = console st @ [colors c @ m @ colors Reset]"
  by (simp_all add: print_def)

lemma printHeader_frame [simp]:
  "passed (printHeader t st) = passed st" "failed (printHeader t st) = failed st"
  "warnings (printHeader t st) = warnings st" "critical (printHeader t st) = critical st"
  "important (printHeader t st) = important st" "optional (printHeader t st) = optional st"
  "cmds (printHeader t st) = cmds st"
  by (simp_all add: printHeader_def)

lemma push_frame [simp]:
  "passed (push_passed x st) = passed st @ [x]" "failed (push_passed x st) = failed st"
  "warnings (push_passed x st) = warnings st" "critical (push_passed x st) = critical st"
  "important (push_passed x st) = important st" "optional (push_passed x st) = optional st"
  "cmds (push_passed x st) = cmds st" "console (push_passed x st) = console st"
  "passed (push_failed x st) = passed st" "failed (push_failed x st) = failed st @ [x]"
  "warnings (push_failed x st) = warnings st" "critical (push_failed x st) = critical st"
  "important (push_failed x st) = important st" "optional (push_failed x st) = optional st"
  "cmds (push_failed x st) = cmds st" "console (push_failed x st) = console st"
  "passed (push_warnings x st) = passed st" "failed (push_warnings x st) = failed st"
  "warnings (push_warnings x st) = warnings st @ [x]" "critical (push_warnings x st) = critical st"
  "important (push_warnings x st) = important st" "optional (push_warnings x st) = optional st"
  "cmds (push_warnings x st) = cmds st" "console (push_warnings x st) = console st"
  by (simp_all add: push_passed_def push_failed_def push_warnings_def)

lemma push_bucket_frame [simp]:
  "passed (push_bucket c m st) = passed st" "failed (push_bucket c m st) = failed st"
  "warnings (push_bucket c m st) = warnings st" "cmds (push_bucket c m st) = cmds st"
  "console (push_bucket c m st) = console st"
  by (cases c; simp)+

lemma logSteps_frame [simp]:
  "passed (logSteps i steps st) = passed st" "failed (logSteps i steps st) = failed st"
  "warnings (logSteps i steps st) = warnings st" "critical (logSteps i steps st) = critical st"
  "important (logSteps i steps st) = important st" "optional (logSteps i steps st) = optional st"
  "cmds (logSteps i steps st) = cmds st"
  by (induction steps arbitrary: i st; simp)+

lemma showCriticality_frame [simp]:
  "passed (showCriticality s m opts st) = passed st" "failed (showCriticality s m opts st) = failed st"
  "warnings (showCriticality s m opts st) = warnings st" "cmds (showCriticality s m opts st) = cmds st"
  by (simp_all add: showCriticality_def split: option.splits)

lemma showCriticality_not_failure [simp]:
  "s \<noteq> Failure \<Longrightarrow> showCriticality s m opts st = st"
  by (simp add: showCriticality_def split: option.splits)

lemma showFix_frame [simp]:
  "passed (showFix s opts st) = passed st" "failed (showFix s opts st) = failed st"
  "warnings (showFix s opts st) = warnings st" "critical (showFix s opts st) = critical st"
  "important (showFix s opts st) = important st" "optional (showFix s opts st) = optional st"
  "cmds (showFix s opts st) = cmds st"
  by (simp_all add: showFix_def split: option.splits fix_arg.splits)

lemma showFix_not_failure [simp]:
  "s \<noteq> Failure \<Longrightarrow> showFix s opts st = st"
  by (simp add: showFix_def)

lemma showLink_frame [simp]:
  "passed (showLink opts st) = passed st" "failed (showLink opts st) = failed st"
  "warnings (showLink opts st) = warnings st" "critical (showLink opts st) = critical st"
  "important (showLink opts st) = important st" "optional (showLink opts st) = optional st"
  "cmds (showLink opts st) = cmds st"
  by (simp_all add: showLink_def)

lemma printResult_frame [simp]:
  "passed (printResult s m d opts st) = passed st" "failed (printResult s m d opts st) = failed st"
  "warnings (printResult s m d opts st) = warnings st" "cmds (printResult s m d opts st) = cmds st"
  by (simp_all add: printResult_def Let_def)

lemma printResult_buckets_not_failure [simp]:
  assumes "s \<noteq> Failure"
  shows "critical (printResult s m d opts st) = critical st"
    and "important (printResult s m d opts st) = important st"
    and "optional (printResult s m d opts st) = optional st"
  using assms by (simp_all add: printResult_def Let_def)

lemma executeCommand_frame [simp]:
  "passed (snd (executeCommand env c st)) = passed st" "failed (snd (executeCommand env c st)) = failed st"
  "warnings (snd (executeCommand env c st)) = warnings st" "critical (snd (executeCommand env c st)) = critical st"
  "important (snd (executeCommand env c st)) = important st" "optional (snd (executeCommand env c st)) = optional st"
  "console (snd (executeCommand env c st)) = console st"
  "cmds (snd (executeCommand env c st)) = cmds st @ [c]"
  "fst (executeCommand env c st) = map_option trim (execSync env (cmds st) c)"
  by (simp_all add: executeCommand_def split: option.splits)

section \<open>The summary\<close>

lemma summaryHead_frame [simp]:
  "passed (summaryHead st) = passed st" "failed (summaryHead st) = failed st"
  "warnings (summaryHead st) = warnings st" "critical (summaryHead st) = critical st"
  "important (summaryHead st) = important st" "optional (summaryHead st) = optional st"
  "cmds (summaryHead st) = cmds st"
  by (simp_all add: summaryHead_def printBreakdown_def printTally_def Let_def)

text \<open>What \<open>printSummary\<close> prints before the feedback: the header, the tally and the
  breakdown. None of these lines is the first line of a feedback message.\<close>

lemma summaryHead_console:
  "console (summaryHead st) = console st @ drop (length (console st)) (console (summaryHead st))"
  by (simp add: summaryHead_def printBreakdown_def printTally_def printHeader_def Let_def)

lemma summaryHead_no_headline:
  "filter (\<lambda>l. l \<in> set
       [colors Green @ [CHR 0xF0, CHR 0x9F, CHR 0x8E, CHR 0x89] @ '' Perfect! All automated checks passed!'' @ colors Reset,
        colors Green @ [CHR 0xE2, CHR 0x9C, CHR 0x85] @ '' Your system is working correctly!'' @ colors Reset,
        colors Red @ [CHR 0xF0, CHR 0x9F, CHR 0x94, CHR 0xB4] @ '' CRITICAL issues found - these must be fixed!'' @ colors Reset,
        colors Yellow @ [CHR 0xE2, CHR 0x9A, CHR 0xA0, CHR 0xEF, CHR 0xB8, CHR 0x8F] @ ''  Some recommended items need attention.'' @ colors Reset])
     (drop (length (console st)) (console (summaryHead st))) = []"
  by (simp add: summaryHead_def printBreakdown_def printTally_def printHeader_def Let_def)

lemma printSummary_console:
  "console (printSummary st) =
     console (summaryHead st)
     @ (if length (failed st) = 0 \<and> length (warnings st) = 0 then
          [colors Green @ [CHR 0xF0, CHR 0x9F, CHR 0x8E, CHR 0x89] @ '' Perfect! All automated checks passed!'' @ colors Reset,
           colors Cyan @ ''Please complete the manual verification checklist above.'' @ colors Reset]
        else if length (critical st) = 0 \<and> length (important st) = 0 then
          [colors Green @ [CHR 0xE2, CHR 0x9C, CHR 0x85] @ '' Your system is working correctly!'' @ colors Reset,
           colors Cyan @ ''The failed/warning items are OPTIONAL and don'' @ [CHR 0x27] @ ''t affect functionality.'' @ colors Reset,
           colors Cyan @ ''You can safely proceed with development.'' @ colors Reset]
        else if 0 < length (critical st) then
          [colors Red @ [CHR 0xF0, CHR 0x9F, CHR 0x94, CHR 0xB4] @ '' CRITICAL issues found - these must be fixed!'' @ colors Reset,
           colors Yellow @ ''Review the fix instructions above for each critical item.'' @ colors Reset]
        else
          [colors Yellow @ [CHR 0xE2, CHR 0x9A, CHR 0xA0, CHR 0xEF, CHR 0xB8, CHR 0x8F] @ ''  Some recommended items need attention.'' @ colors Reset,
           colors Cyan @ ''Your system may work, but fixing these will improve functionality.'' @ colors Reset])
     @ [[CHR 0x0A, CHR 0xF0, CHR 0x9F, CHR 0x93, CHR 0x9A] @ '' For detailed guides, visit:'',
        ''   https://github.com/DigitalFuturesOCADU/atelier1-fall2025/tree/main/guide'',
        [CHR 0xE2, CHR 0x9D, CHR 0x93] @ '' For help, run: npx @digitalfutures/vscode-setup-check --help'',
        [CHR 0x0A]]"
  by (simp add: printSummary_def summaryFoot_def printFeedback_def feedbackPerfect_def
        feedbackOptional_def feedbackCritical_def feedbackRecommended_def)

text \<open>
  Claim C1. After the header, the tally and the breakdown, \<open>printSummary\<close> prints
  exactly one of four feedback messages and then its closing lines, and the counts of the
  accumulator choose the message in this order: no failed and no warning item gives
  "Perfect! All automated checks passed!"; otherwise no critical and no important item
  gives "Your system is working correctly!"; otherwise a critical item gives "CRITICAL
  issues found - these must be fixed!"; otherwise "Some recommended items need
  attention.". Of the four first lines of these messages, the whole output of the summary
  holds the chosen one, once, and no other.
\<close>

theorem summary_message_selection:
  "(\<exists>head.
      console (printSummary st) =
        console st @ head
        @ (if length (failed st) = 0 \<and> length (warnings st) = 0 then
             [colors Green @ [CHR 0xF0, CHR 0x9F, CHR 0x8E, CHR 0x89] @ '' Perfect! All automated checks passed!'' @ colors Reset,
              colors Cyan @ ''Please complete the manual verification checklist above.'' @ colors Reset]
           else if length (critical st) = 0 \<and> length (important st) = 0 then
             [colors Green @ [CHR 0xE2, CHR 0x9C, CHR 0x85] @ '' Your system is working correctly!'' @ colors Reset,
              colors Cyan @ ''The failed/warning items are OPTIONAL and don'' @ [CHR 0x27] @ ''t affect functionality.'' @ colors Reset,
              colors Cyan @ ''You can safely proceed with development.'' @ colors Reset]
           else if 0 < length (critical st) then
             [colors Red @ [CHR 0xF0, CHR 0x9F, CHR 0x94, CHR 0xB4] @ '' CRITICAL issues found - these must be fixed!'' @ colors Reset,
              colors Yellow @ ''Review the fix instructions above for each critical item.'' @ colors Reset]
           else
             [colors Yellow @ [CHR 0xE2, CHR 0x9A, CHR 0xA0, CHR 0xEF, CHR 0xB8, CHR 0x8F] @ ''  Some recommended items need attention.'' @ colors Reset,
              colors Cyan @ ''Your system may work, but fixing these will improve functionality.'' @ colors Reset])
        @ [[CHR 0x0A, CHR 0xF0, CHR 0x9F, CHR 0x93, CHR 0x9A] @ '' For detailed guides, visit:'',
           ''   https://github.com/DigitalFuturesOCADU/atelier1-fall2025/tree/main/guide'',
           [CHR 0xE2, CHR 0x9D, CHR 0x93] @ '' For help, run: npx @digitalfutures/vscode-setup-check --help'',
           [CHR 0x0A]])
   \<and> filter (\<lambda>l. l \<in> set
         [colors Green @ [CHR 0xF0, CHR 0x9F, CHR 0x8E, CHR 0x89] @ '' Perfect! All automated checks passed!'' @ colors Reset,
          colors Green @ [CHR 0xE2, CHR 0x9C, CHR 0x85] @ '' Your system is working correctly!'' @ colors Reset,
          colors Red @ [CHR 0xF0, CHR 0x9F, CHR 0x94, CHR 0xB4] @ '' CRITICAL issues found - these must be fixed!'' @ colors Reset,
          colors Yellow @ [CHR 0xE2, CHR 0x9A, CHR 0xA0, CHR 0xEF, CHR 0xB8, CHR 0x8F] @ ''  Some recommended items need attention.'' @ colors Reset])
       (drop (length (console st)) (console (printSummary st)))
     = [if length (failed st) = 0 \<and> length (warnings st) = 0 then
          colors Green @ [CHR 0xF0, CHR 0x9F, CHR 0x8E, CHR 0x89] @ '' Perfect! All automated checks passed!'' @ colors Reset
        else if length (critical st) = 0 \<and> length (important st) = 0 then
          colors Green @ [CHR 0xE2, CHR 0x9C, CHR 0x85] @ '' Your system is working correctly!'' @ colors Reset
        else if 0 < length (critical st) then
          colors Red @ [CHR 0xF0, CHR 0x9F, CHR 0x94, CHR 0xB4] @ '' CRITICAL issues found - these must be fixed!'' @ colors Reset
        else
          colors Yellow @ [CHR 0xE2, CHR 0x9A, CHR 0xA0, CHR 0xEF, CHR 0xB8, CHR 0x8F] @ ''  Some recommended items need attention.'' @ colors Reset]"
proof -
  define headlines where "headlines =
     [colors Green @ [CHR 0xF0, CHR 0x9F, CHR 0x8E, CHR 0x89] @ '' Perfect! All automated checks passed!'' @ colors Reset,
      colors Green @ [CHR 0xE2, CHR 0x9C, CHR 0x85] @ '' Your system is working correctly!'' @ colors Reset,
      colors Red @ [CHR 0xF0, CHR 0x9F, CHR 0x94, CHR 0xB4] @ '' CRITICAL issues found - these must be fixed!'' @ colors Reset,
      colors Yellow @ [CHR 0xE2, CHR 0x9A, CHR 0xA0, CHR 0xEF, CHR 0xB8, CHR 0x8F] @ ''  Some recommended items need attention.'' @ colors Reset]"
  define selected where "selected =
       (if length (failed st) = 0 \<and> length (warnings st) = 0 then
          [colors Green @ [CHR 0xF0, CHR 0x9F, CHR 0x8E, CHR 0x89] @ '' Perfect! All automated checks passed!'' @ colors Reset,
           colors Cyan @ ''Please complete the manual verification checklist above.'' @ colors Reset]
        else if length (critical st) = 0 \<and> length (important st) = 0 then
          [colors Green @ [CHR 0xE2, CHR 0x9C, CHR 0x85] @ '' Your system is working correctly!'' @ colors Reset,
           colors Cyan @ ''The failed/warning items are OPTIONAL and don'' @ [CHR 0x27] @ ''t affect functionality.'' @ colors Reset,
           colors Cyan @ ''You can safely proceed with development.'' @ colors Reset]
        else if 0 < length (critical st) then
          [colors Red @ [CHR 0xF0, CHR 0x9F, CHR 0x94, CHR 0xB4] @ '' CRITICAL issues found - these must be fixed!'' @ colors Reset,
           colors Yellow @ ''Review the fix instructions above for each critical item.'' @ colors Reset]
        else
          [colors Yellow @ [CHR 0xE2, CHR 0x9A, CHR 0xA0, CHR 0xEF, CHR 0xB8, CHR 0x8F] @ ''  Some recommended items need attention.'' @ colors Reset,
           colors Cyan @ ''Your system may work, but fixing these will improve functionality.'' @ colors Reset])"
  define chosen where "chosen =
       (if length (failed st) = 0 \<and> length (warnings st) = 0 then
          colors Green @ [CHR 0xF0, CHR 0x9F, CHR 0x8E, CHR 0x89] @ '' Perfect! All automated checks passed!'' @ colors Reset
        else if length (critical st) = 0 \<and> length (important st) = 0 then
          colors Green @ [CHR 0xE2, CHR 0x9C, CHR 0x85] @ '' Your system is working correctly!'' @ colors Reset
        else if 0 < length (critical st) then
          colors Red @ [CHR 0xF0, CHR 0x9F, CHR 0x94, CHR 0xB4] @ '' CRITICAL issues found - these must be fixed!'' @ colors Reset
        else
          colors Yellow @ [CHR 0xE2, CHR 0x9A, CHR 0xA0, CHR 0xEF, CHR 0xB8, CHR 0x8F] @ ''  Some recommended items need attention.'' @ colors Reset)"
  define foot where "foot =
     [[CHR 0x0A, CHR 0xF0, CHR 0x9F, CHR 0x93, CHR 0x9A] @ '' For detailed guides, visit:'',
      ''   https://github.com/DigitalFuturesOCADU/atelier1-fall2025/tree/main/guide'',
      [CHR 0xE2, CHR 0x9D, CHR 0x93] @ '' For help, run: npx @digitalfutures/vscode-setup-check --help'',
      [CHR 0x0A]]"
  define head where "head = drop (length (console st)) (console (summaryHead st))"
  have "console (printSummary st) = console (summaryHead st) @ selected @ foot"
    unfolding selected_def foot_def by (rule printSummary_console)
  moreover have "console (summaryHead st) = console st @ head"
    unfolding head_def by (rule summaryHead_console)
  ultimately have whole: "console (printSummary st) = console st @ head @ selected @ foot"
    by simp
  then have new: "drop (length (console st)) (console (printSummary st)) = head @ selected @ foot"
    by simp
  have in_head: "filter (\<lambda>l. l \<in> set headlines) head = []"
    unfolding headlines_def head_def by (rule summaryHead_no_headline)
  have in_foot: "filter (\<lambda>l. l \<in> set headlines) foot = []"
    unfolding headlines_def foot_def by simp
  have in_selected: "filter (\<lambda>l. l \<in> set headlines) selected = [chosen]"
    unfolding headlines_def selected_def chosen_def by simp
  have one: "filter (\<lambda>l. l \<in> set headlines) (drop (length (console st)) (console (printSummary st)))
               = [chosen]"
    by (simp only: new filter_append in_head in_foot in_selected append_Nil append_Nil2)
  from whole have "\<exists>h. console (printSummary st) = console st @ h @ selected @ foot"
    by (rule exI)
  with one show ?thesis
    unfolding headlines_def selected_def chosen_def foot_def by (rule conjI [rotated])
qed

section \<open>A run on the machine with the outside e-mail address\<close>

lemma gmailHost_lists:
  "passed (runProbes gmailHost) = [''Git installed'', ''Git user.name set'', ''Git user.email set'']
   \<and> failed (runProbes gmailHost) = [''Node.js not found'', ''VS Code not found'']
   \<and> warnings (runProbes gmailHost) = [''npm not found'', ''Non-OCADU email'', ''Not in Git repository'']
   \<and> critical (runProbes gmailHost) = [''VS Code is NOT installed'']
   \<and> important (runProbes gmailHost) = [''Node.js is NOT installed'']
   \<and> optional (runProbes gmailHost) = []"
proof -
  note shown = printResult_def showCriticality_def showFix_def showLink_def no_options_def
    guide_def Let_def
  have answers: "execSync gmailHost h = map_of
     [(''git --version'', ''git version 2.43.0'' @ [CHR 0x0A]),
      (''git config --global user.name'', ''Sam Student'' @ [CHR 0x0A]),
      (''git config --global user.email'', ''student@gmail.com'' @ [CHR 0x0A])]" for h
    by (simp add: gmailHost_def host_def)
  have machine: "platform gmailHost = ''linux''" "existsSync gmailHost = (\<lambda>p. False)"
    by (simp_all add: gmailHost_def host_def)
  let ?s0 = "banner (console_clear init)"
  have zero: "passed ?s0 = []" "failed ?s0 = []" "warnings ?s0 = []"
      "critical ?s0 = []" "important ?s0 = []" "optional ?s0 = []"
    by (simp_all add: banner_def console_clear_def init_def)
  let ?s1 = "checkNode gmailHost ?s0"
  have s1: "passed ?s1 = []" "failed ?s1 = [''Node.js not found'']" "warnings ?s1 = [''npm not found'']"
      "critical ?s1 = []" "important ?s1 = [''Node.js is NOT installed'']" "optional ?s1 = []"
    by (simp_all add: checkNode_def split_def answers zero shown)
  have vs: "checkVSCode gmailHost s = vscodeNotInstalled gmailHost
              (snd (executeCommand gmailHost ''which code'' (printHeader ''Checking VS Code Installation'' s)))" for s
    by (simp add: checkVSCode_def findVSCodePath_def whichCode_def possiblePaths_def machine
          answers split_def)
  let ?s2 = "snd (checkVSCode gmailHost ?s1)"
  have s2: "passed ?s2 = []" "failed ?s2 = [''Node.js not found'', ''VS Code not found'']"
      "warnings ?s2 = [''npm not found'']" "fst (checkVSCode gmailHost ?s1) = None"
      "critical ?s2 = [''VS Code is NOT installed'']" "important ?s2 = [''Node.js is NOT installed'']"
      "optional ?s2 = []"
    by (simp_all add: vs vscodeNotInstalled_def s1 shown)
  let ?s3 = "checkExtensions gmailHost None ?s2"
  have s3: "passed ?s3 = []" "failed ?s3 = [''Node.js not found'', ''VS Code not found'']"
      "warnings ?s3 = [''npm not found'']"
      "critical ?s3 = [''VS Code is NOT installed'']" "important ?s3 = [''Node.js is NOT installed'']"
      "optional ?s3 = []"
    by (simp_all add: checkExtensions_def skipNoVSCode_def Let_def s2)
  let ?s4 = "checkGit gmailHost ?s3"
  have outside: "\<not> includes_str ''student@gmail.com'' ''@ocadu.ca''"
      "\<not> includes_str ''student@gmail.com'' ''@ocad.ca''"
    by simp_all
  have s4: "passed ?s4 = [''Git installed'', ''Git user.name set'', ''Git user.email set'']"
      "failed ?s4 = [''Node.js not found'', ''VS Code not found'']"
      "warnings ?s4 = [''npm not found'', ''Non-OCADU email'']"
      "critical ?s4 = [''VS Code is NOT installed'']" "important ?s4 = [''Node.js is NOT installed'']"
      "optional ?s4 = []"
    by (simp_all add: checkGit_def split_def Let_def answers trim_def isWhiteSpace_def
          checkUserName_def checkUserEmail_def outside s3)
  let ?s5 = "checkLocalRepo gmailHost ?s4"
  have s5: "passed ?s5 = [''Git installed'', ''Git user.name set'', ''Git user.email set'']"
      "failed ?s5 = [''Node.js not found'', ''VS Code not found'']"
      "warnings ?s5 = [''npm not found'', ''Non-OCADU email'', ''Not in Git repository'']"
      "critical ?s5 = [''VS Code is NOT installed'']" "important ?s5 = [''Node.js is NOT installed'']"
      "optional ?s5 = []"
    by (simp_all add: checkLocalRepo_def notARepo_def Let_def machine s4)
  have run: "runProbes gmailHost = printManualChecklist ?s5"
    by (simp add: runProbes_def split_def s2)
  show ?thesis
    unfolding run by (simp add: printManualChecklist_def s5)
qed

theorem summary_message_selection_witness:
  "filter (\<lambda>l. l \<in> set
         [colors Green @ [CHR 0xF0, CHR 0x9F, CHR 0x8E, CHR 0x89] @ '' Perfect! All automated checks passed!'' @ colors Reset,
          colors Green @ [CHR 0xE2, CHR 0x9C, CHR 0x85] @ '' Your system is working correctly!'' @ colors Reset,
          colors Red @ [CHR 0xF0, CHR 0x9F, CHR 0x94, CHR 0xB4] @ '' CRITICAL issues found - these must be fixed!'' @ colors Reset,
          colors Yellow @ [CHR 0xE2, CHR 0x9A, CHR 0xA0, CHR 0xEF, CHR 0xB8, CHR 0x8F] @ ''  Some recommended items need attention.'' @ colors Reset])
       (drop (length (console init)) (console (printSummary init)))
     = [colors Green @ [CHR 0xF0, CHR 0x9F, CHR 0x8E, CHR 0x89] @ '' Perfect! All automated checks passed!'' @ colors Reset]
   \<and> filter (\<lambda>l. l \<in> set
         [colors Green @ [CHR 0xF0, CHR 0x9F, CHR 0x8E, CHR 0x89] @ '' Perfect! All automated checks passed!'' @ colors Reset,
          colors Green @ [CHR 0xE2, CHR 0x9C, CHR 0x85] @ '' Your system is working correctly!'' @ colors Reset,
          colors Red @ [CHR 0xF0, CHR 0x9F, CHR 0x94, CHR 0xB4] @ '' CRITICAL issues found - these must be fixed!'' @ colors Reset,
          colors Yellow @ [CHR 0xE2, CHR 0x9A, CHR 0xA0, CHR 0xEF, CHR 0xB8, CHR 0x8F] @ ''  Some recommended items need attention.'' @ colors Reset])
       (drop (length (console (init\<lparr>warnings := [''npm not found'']\<rparr>)))
          (console (printSummary (init\<lparr>warnings := [''npm not found'']\<rparr>))))
     = [colors Green @ [CHR 0xE2, CHR 0x9C, CHR 0x85] @ '' Your system is working correctly!'' @ colors Reset]
   \<and> filter (\<lambda>l. l \<in> set
         [colors Green @ [CHR 0xF0, CHR 0x9F, CHR 0x8E, CHR 0x89] @ '' Perfect! All automated checks passed!'' @ colors Reset,
          colors Green @ [CHR 0xE2, CHR 0x9C, CHR 0x85] @ '' Your system is working correctly!'' @ colors Reset,
          colors Red @ [CHR 0xF0, CHR 0x9F, CHR 0x94, CHR 0xB4] @ '' CRITICAL issues found - these must be fixed!'' @ colors Reset,
          colors Yellow @ [CHR 0xE2, CHR 0x9A, CHR 0xA0, CHR 0xEF, CHR 0xB8, CHR 0x8F] @ ''  Some recommended items need attention.'' @ colors Reset])
       (drop (length (console (runProbes gmailHost))) (console (main gmailHost)))
     = [colors Red @ [CHR 0xF0, CHR 0x9F, CHR 0x94, CHR 0xB4] @ '' CRITICAL issues found - these must be fixed!'' @ colors Reset]
   \<and> filter (\<lambda>l. l \<in> set
         [colors Green @ [CHR 0xF0, CHR 0x9F, CHR 0x8E, CHR 0x89] @ '' Perfect! All automated checks passed!'' @ colors Reset,
          colors Green @ [CHR 0xE2, CHR 0x9C, CHR 0x85] @ '' Your system is working correctly!'' @ colors Reset,
          colors Red @ [CHR 0xF0, CHR 0x9F, CHR 0x94, CHR 0xB4] @ '' CRITICAL issues found - these must be fixed!'' @ colors Reset,
          colors Yellow @ [CHR 0xE2, CHR 0x9A, CHR 0xA0, CHR 0xEF, CHR 0xB8, CHR 0x8F] @ ''  Some recommended items need attention.'' @ colors Reset])
       (drop (length (console (init\<lparr>failed := [''Node.js not found''],
                                       important := [''Node.js is NOT installed'']\<rparr>)))
          (console (printSummary (init\<lparr>failed := [''Node.js not found''],
                                          important := [''Node.js is NOT installed'']\<rparr>))))
     = [colors Yellow @ [CHR 0xE2, CHR 0x9A, CHR 0xA0, CHR 0xEF, CHR 0xB8, CHR 0x8F] @ ''  Some recommended items need attention.'' @ colors Reset]"
proof -
  have lists: "failed init = []" "warnings init = []"
    by (simp_all add: init_def)
  note perfect = summary_message_selection [of init, THEN conjunct2]
  note optional_only = summary_message_selection [of "init\<lparr>warnings := [''npm not found'']\<rparr>",
      THEN conjunct2]
  note must_fix = summary_message_selection [of "runProbes gmailHost", THEN conjunct2]
  note recommended = summary_message_selection
      [of "init\<lparr>failed := [''Node.js not found''], important := [''Node.js is NOT installed'']\<rparr>",
       THEN conjunct2]
  have a: "filter (\<lambda>l. l \<in> set
         [colors Green @ [CHR 0xF0, CHR 0x9F, CHR 0x8E, CHR 0x89] @ '' Perfect! All automated checks passed!'' @ colors Reset,
          colors Green @ [CHR 0xE2, CHR 0x9C, CHR 0x85] @ '' Your system is working correctly!'' @ colors Reset,
          colors Red @ [CHR 0xF0, CHR 0x9F, CHR 0x94, CHR 0xB4] @ '' CRITICAL issues found - these must be fixed!'' @ colors Reset,
          colors Yellow @ [CHR 0xE2, CHR 0x9A, CHR 0xA0, CHR 0xEF, CHR 0xB8, CHR 0x8F] @ ''  Some recommended items need attention.'' @ colors Reset])
       (drop (length (console init)) (console (printSummary init)))
     = [colors Green @ [CHR 0xF0, CHR 0x9F, CHR 0x8E, CHR 0x89] @ '' Perfect! All automated checks passed!'' @ colors Reset]"
    using perfect by (simp only: lists list.size if_True simp_thms)
  have b: "filter (\<lambda>l. l \<in> set
         [colors Green @ [CHR 0xF0, CHR 0x9F, CHR 0x8E, CHR 0x89] @ '' Perfect! All automated checks passed!'' @ colors Reset,
          colors Green @ [CHR 0xE2, CHR 0x9C, CHR 0x85] @ '' Your system is working correctly!'' @ colors Reset,
          colors Red @ [CHR 0xF0, CHR 0x9F, CHR 0x94, CHR 0xB4] @ '' CRITICAL issues found - these must be fixed!'' @ colors Reset,
          colors Yellow @ [CHR 0xE2, CHR 0x9A, CHR 0xA0, CHR 0xEF, CHR 0xB8, CHR 0x8F] @ ''  Some recommended items need attention.'' @ colors Reset])
       (drop (length (console (init\<lparr>warnings := [''npm not found'']\<rparr>)))
          (console (printSummary (init\<lparr>warnings := [''npm not found'']\<rparr>))))
     = [colors Green @ [CHR 0xE2, CHR 0x9C, CHR 0x85] @ '' Your system is working correctly!'' @ colors Reset]"
  proof -
    have "length (warnings (init\<lparr>warnings := [''npm not found'']\<rparr>)) \<noteq> 0"
      "length (critical (init\<lparr>warnings := [''npm not found'']\<rparr>)) = 0"
      "length (important (init\<lparr>warnings := [''npm not found'']\<rparr>)) = 0"
      by (simp_all add: init_def)
    with optional_only show ?thesis
      by (simp only: if_True if_False simp_thms)
  qed
  have c: "filter (\<lambda>l. l \<in> set
         [colors Green @ [CHR 0xF0, CHR 0x9F, CHR 0x8E, CHR 0x89] @ '' Perfect! All automated checks passed!'' @ colors Reset,
          colors Green @ [CHR 0xE2, CHR 0x9C, CHR 0x85] @ '' Your system is working correctly!'' @ colors Reset,
          colors Red @ [CHR 0xF0, CHR 0x9F, CHR 0x94, CHR 0xB4] @ '' CRITICAL issues found - these must be fixed!'' @ colors Reset,
          colors Yellow @ [CHR 0xE2, CHR 0x9A, CHR 0xA0, CHR 0xEF, CHR 0xB8, CHR 0x8F] @ ''  Some recommended items need attention.'' @ colors Reset])
       (drop (length (console (runProbes gmailHost))) (console (main gmailHost)))
     = [colors Red @ [CHR 0xF0, CHR 0x9F, CHR 0x94, CHR 0xB4] @ '' CRITICAL issues found - these must be fixed!'' @ colors Reset]"
  proof -
    have "length (failed (runProbes gmailHost)) \<noteq> 0"
      "length (critical (runProbes gmailHost)) \<noteq> 0"
      "0 < length (critical (runProbes gmailHost))"
      using gmailHost_lists by simp_all
    with must_fix show ?thesis
      unfolding main_def by (simp only: if_True if_False simp_thms)
  qed
  have d: "filter (\<lambda>l. l \<in> set
         [colors Green @ [CHR 0xF0, CHR 0x9F, CHR 0x8E, CHR 0x89] @ '' Perfect! All automated checks passed!'' @ colors Reset,
          colors Green @ [CHR 0xE2, CHR 0x9C, CHR 0x85] @ '' Your system is working correctly!'' @ colors Reset,
          colors Red @ [CHR 0xF0, CHR 0x9F, CHR 0x94, CHR 0xB4] @ '' CRITICAL issues found - these must be fixed!'' @ colors Reset,
          colors Yellow @ [CHR 0xE2, CHR 0x9A, CHR 0xA0, CHR 0xEF, CHR 0xB8, CHR 0x8F] @ ''  Some recommended items need attention.'' @ colors Reset])
       (drop (length (console (init\<lparr>failed := [''Node.js not found''],
                                       important := [''Node.js is NOT installed'']\<rparr>)))
          (console (printSummary (init\<lparr>failed := [''Node.js not found''],
                                          important := [''Node.js is NOT installed'']\<rparr>))))
     = [colors Yellow @ [CHR 0xE2, CHR 0x9A, CHR 0xA0, CHR 0xEF, CHR 0xB8, CHR 0x8F] @ ''  Some recommended items need attention.'' @ colors Reset]"
  proof -
    have "length (failed (init\<lparr>failed := [''Node.js not found''],
                                  important := [''Node.js is NOT installed'']\<rparr>)) \<noteq> 0"
      "length (important (init\<lparr>failed := [''Node.js not found''],
                                  important := [''Node.js is NOT installed'']\<rparr>)) \<noteq> 0"
      "\<not> 0 < length (critical (init\<lparr>failed := [''Node.js not found''],
                                  important := [''Node.js is NOT installed'']\<rparr>))"
      by (simp_all add: init_def)
    with recommended show ?thesis
      by (simp only: if_True if_False simp_thms)
  qed
  from a b c d show ?thesis
    by (intro conjI)
qed

section \<open>The help flag\<close>

text \<open>
  Claim C9. When \<open>--help\<close> or \<open>-h\<close> is among the arguments, the script prints the
  usage text and ends with status 0 before any probe has run: the usage text is the only
  output, no command has been executed and the six lists of the accumulator are empty.
\<close>

theorem help_exits_before_probes:
  assumes "''--help'' \<in> set (argv env) \<or> ''-h'' \<in> set (argv env)"
  shows "fst (program env) = 0
     \<and> console (snd (program env)) = [HELP_TEXT]
     \<and> cmds (snd (program env)) = []
     \<and> passed (snd (program env)) = [] \<and> failed (snd (program env)) = []
     \<and> warnings (snd (program env)) = [] \<and> critical (snd (program env)) = []
     \<and> important (snd (program env)) = [] \<and> optional (snd (program env)) = []"
proof -
  from assms have "program env = (0, console_log HELP_TEXT init)"
    by (simp add: program_def arrayIncludes_def)
  then show ?thesis
    by (simp add: init_def)
qed

theorem help_exits_before_probes_witness:
  "(''--help'' \<in> set (argv (host [''node'', ''index.js'', ''-h''] [] []))
      \<or> ''-h'' \<in> set (argv (host [''node'', ''index.js'', ''-h''] [] [])))
   \<and> fst (program (host [''node'', ''index.js'', ''-h''] [] [])) = 0
   \<and> console (snd (program (host [''node'', ''index.js'', ''-h''] [] []))) = [HELP_TEXT]
   \<and> cmds (snd (program (host [''node'', ''index.js'', ''-h''] [] []))) = []"
proof -
  have flag: "''--help'' \<in> set (argv (host [''node'', ''index.js'', ''-h''] [] []))
      \<or> ''-h'' \<in> set (argv (host [''node'', ''index.js'', ''-h''] [] []))"
    by (simp add: host_def)
  show ?thesis
    using flag help_exits_before_probes [OF flag] by simp
qed

section \<open>The Git probe without Git\<close>

text \<open>
  Claim C7. When the query \<open>git --version\<close> yields the absent result, \<open>checkGit\<close>
  reports the critical failure "Git is NOT installed" and returns: \<open>git --version\<close>
  is the only command it has run (the user name and the user e-mail are not queried),
  the failure is filed under "failed" and under "critical", and nothing else is added to
  any list of the accumulator.
\<close>

theorem git_absent_skips_identity:
  assumes "execSync env (cmds st) ''git --version'' = None"
  shows "cmds (checkGit env st) = cmds st @ [''git --version'']
     \<and> failed (checkGit env st) = failed st @ [''Git not found'']
     \<and> critical (checkGit env st) = critical st @ [''Git is NOT installed'']
     \<and> passed (checkGit env st) = passed st
     \<and> warnings (checkGit env st) = warnings st
     \<and> important (checkGit env st) = important st
     \<and> optional (checkGit env st) = optional st
     \<and> colors Red @ symbols Failure @ '' Git is NOT installed'' @ colors Reset
           \<in> set (console (checkGit env st))
     \<and> colors Red @ ''  '' @ critSymbols CRITICAL @ '' Criticality: CRITICAL'' @ colors Reset
           \<in> set (console (checkGit env st))"
proof -
  let ?st1 = "snd (executeCommand env ''git --version''
                (printHeader ''Checking Git Installation & Configuration'' st))"
  have absent: "fst (executeCommand env ''git --version''
                (printHeader ''Checking Git Installation & Configuration'' st)) = None"
    using assms by simp
  have run: "checkGit env st = gitNotInstalled env ?st1"
    using absent by (simp add: checkGit_def split_def)
  show ?thesis
    unfolding run
    by (simp add: gitNotInstalled_def printResult_def showCriticality_def showFix_def
          showLink_def guide_def Let_def)
qed

theorem git_absent_skips_identity_witness:
  "execSync (host [] [] []) (cmds init) ''git --version'' = None
   \<and> cmds (checkGit (host [] [] []) init) = [''git --version'']
   \<and> failed (checkGit (host [] [] []) init) = [''Git not found'']
   \<and> critical (checkGit (host [] [] []) init) = [''Git is NOT installed'']
   \<and> passed (checkGit (host [] [] []) init) = []"
proof -
  have absent: "execSync (host [] [] []) (cmds init) ''git --version'' = None"
    by (simp add: host_def)
  show ?thesis
    using absent git_absent_skips_identity [OF absent] by (simp add: init_def)
qed

section \<open>The extension probe without an editor\<close>

text \<open>
  Claim C8, as the specification states it, fails: without an editor path the probe
  prints, after its header, two lines and not one.
\<close>

theorem skip_prints_two_lines:
  "drop (length (console (printHeader ''Checking VS Code Extensions'' init)))
        (console (checkExtensions (host [] [] []) None init))
     = [colors Yellow @ [CHR 0xE2, CHR 0x8A, CHR 0x98] @ '' Skipping extensions check - VS Code not found'' @ colors Reset,
        ''  Install VS Code first, then run this script again'']
   \<and> length (drop (length (console (printHeader ''Checking VS Code Extensions'' init)))
        (console (checkExtensions (host [] [] []) None init))) \<noteq> 1"
  by (simp add: checkExtensions_def skipNoVSCode_def printHeader_def init_def)

text \<open>
  Claim C8, amended. When the editor path handed to \<open>checkExtensions\<close> is absent, the
  probe prints its header, the notice that the check is skipped and one line of advice,
  and changes nothing else: no command is run, no extension is checked, and the six
  lists of the accumulator stay as they were.
\<close>

theorem skip_without_editor:
  "checkExtensions env None st =
     st\<lparr>console := console (printHeader ''Checking VS Code Extensions'' st)
          @ [colors Yellow @ [CHR 0xE2, CHR 0x8A, CHR 0x98] @ '' Skipping extensions check - VS Code not found'' @ colors Reset,
             ''  Install VS Code first, then run this script again'']\<rparr>"
  by (simp add: checkExtensions_def skipNoVSCode_def printHeader_def print_def console_log_def)

section \<open>Lines and letter case\<close>

lemma split_nl_not_Nil [simp]: "split_nl s \<noteq> []"
  by (induction s) (auto split: list.splits)

lemma of_char_lowerChar:
  "(of_char (lowerChar c) :: nat) =
     (if (65 \<le> (of_char c :: nat) \<and> (of_char c :: nat) \<le> 90)
         \<or> (192 \<le> (of_char c :: nat) \<and> (of_char c :: nat) \<le> 222 \<and> (of_char c :: nat) \<noteq> 215)
      then of_char c + 32 else of_char c)"
  by (simp add: lowerChar_def Let_def)

lemma lowerChar_LF [simp]: "lowerChar c = CHR 0x0A \<longleftrightarrow> c = CHR 0x0A"
proof -
  have "lowerChar c = CHR 0x0A \<longleftrightarrow> (of_char (lowerChar c) :: nat) = of_char (CHR 0x0A)"
    by (simp only: of_char_eq_iff)
  also have "\<dots> \<longleftrightarrow> (of_char c :: nat) = of_char (CHR 0x0A)"
    by (simp add: of_char_lowerChar)
  also have "\<dots> \<longleftrightarrow> c = CHR 0x0A"
    by (simp only: of_char_eq_iff)
  finally show ?thesis .
qed

lemma split_nl_toLowerCase: "split_nl (toLowerCase s) = map toLowerCase (split_nl s)"
proof (induction s)
  case Nil
  show ?case by (simp add: toLowerCase_def)
next
  case (Cons c s)
  obtain l ls where sp: "split_nl s = l # ls"
    by (cases "split_nl s") simp_all
  with Cons have "split_nl (map lowerChar s) = map lowerChar l # map (map lowerChar) ls"
    by (simp add: toLowerCase_def)
  with sp show ?case
    by (simp add: toLowerCase_def)
qed

lemma of_char_swapCase:
  "(of_char (swapCase c) :: nat) =
     (if 65 \<le> (of_char c :: nat) \<and> (of_char c :: nat) \<le> 90 then of_char c + 32
      else if 97 \<le> (of_char c :: nat) \<and> (of_char c :: nat) \<le> 122 then of_char c - 32
      else of_char c)"
proof -
  have "(of_char c - 32 :: nat) < 256"
    by (simp add: less_imp_diff_less)
  then show ?thesis
    by (simp add: swapCase_def Let_def)
qed

lemma lowerChar_swapCase [simp]: "lowerChar (swapCase c) = lowerChar c"
proof -
  have "(of_char (lowerChar (swapCase c)) :: nat) = of_char (lowerChar c)"
    unfolding of_char_lowerChar [of "swapCase c"] of_char_lowerChar [of c] of_char_swapCase
    by auto
  then show ?thesis by (simp only: of_char_eq_iff)
qed

lemma sameUpToCase_toLowerCase:
  "sameUpToCase s t \<Longrightarrow> toLowerCase s = toLowerCase t"
  unfolding sameUpToCase_def toLowerCase_def
  by (induction s t rule: list_all2_induct) auto

lemma sameUpToCase_length: "sameUpToCase s t \<Longrightarrow> length s = length t"
  by (simp add: sameUpToCase_def list_all2_lengthD)

section \<open>The loop over the required extensions\<close>

text \<open>The label under which an entry of the table is filed, the line that reports it as
  installed, and the test of the loop.\<close>

lemma checkExtension_installed:
  assumes "toLowerCase extId \<in> set installedList"
  shows "passed (checkExtension env p installedList (extId, info) st)
           = passed st @ [''Extension: '' @ ext_name info]"
    and "failed (checkExtension env p installedList (extId, info) st) = failed st"
    and "console (checkExtension env p installedList (extId, info) st)
           = console st @ [colors Green @ symbols Success @ '' '' @ ext_name info @ '' is installed'' @ colors Reset]"
  using assms
  by (simp_all add: checkExtension_def arrayIncludes_def printResult_def no_options_def
        showLink_def Let_def)

lemma checkExtension_missing:
  assumes "toLowerCase extId \<notin> set installedList"
  shows "passed (checkExtension env p installedList (extId, info) st) = passed st"
    and "failed (checkExtension env p installedList (extId, info) st)
           = failed st @ [''Extension: '' @ ext_name info]"
  using assms
  by (simp_all add: checkExtension_def arrayIncludes_def split_def Let_def)

lemma checkExtension_console_prefix:
  "prefix (console st) (console (checkExtension env p installedList entry st))"
proof -
  obtain extId info where entry: "entry = (extId, info)"
    by (cases entry)
  show ?thesis
  proof (cases "toLowerCase extId \<in> set installedList")
    case True
    then show ?thesis
      unfolding entry by (simp add: checkExtension_installed)
  next
    case False
    then show ?thesis
      unfolding entry
      by (simp add: checkExtension_def arrayIncludes_def split_def Let_def printResult_def
          showCriticality_def showFix_def showLink_def guide_def)
  qed
qed

lemma fold_checkExtension_passed:
  "passed (fold (checkExtension env p installedList) exts st) =
     passed st @ map (\<lambda>e. ''Extension: '' @ ext_name (snd e))
                     (filter (\<lambda>e. toLowerCase (fst e) \<in> set installedList) exts)"
proof (induction exts arbitrary: st)
  case Nil
  show ?case by simp
next
  case (Cons a exts)
  obtain extId info where a: "a = (extId, info)"
    by (cases a)
  show ?case
    by (cases "toLowerCase extId \<in> set installedList")
       (simp_all add: Cons.IH a checkExtension_installed checkExtension_missing)
qed

lemma fold_checkExtension_failed:
  "failed (fold (checkExtension env p installedList) exts st) =
     failed st @ map (\<lambda>e. ''Extension: '' @ ext_name (snd e))
                     (filter (\<lambda>e. toLowerCase (fst e) \<notin> set installedList) exts)"
proof (induction exts arbitrary: st)
  case Nil
  show ?case by simp
next
  case (Cons a exts)
  obtain extId info where a: "a = (extId, info)"
    by (cases a)
  show ?case
    by (cases "toLowerCase extId \<in> set installedList")
       (simp_all add: Cons.IH a checkExtension_installed checkExtension_missing)
qed

lemma fold_checkExtension_console_prefix:
  "prefix (console st) (console (fold (checkExtension env p installedList) exts st))"
proof (induction exts arbitrary: st)
  case Nil
  show ?case by simp
next
  case (Cons a exts)
  have "prefix (console st) (console (checkExtension env p installedList a st))"
    by (rule checkExtension_console_prefix)
  also have "prefix \<dots> (console (fold (checkExtension env p installedList) exts
                 (checkExtension env p installedList a st)))"
    by (rule Cons.IH)
  finally show ?case by simp
qed

lemma set_drop_mono: "m \<le> n \<Longrightarrow> set (drop n xs) \<subseteq> set (drop m xs)"
  by (rule set_drop_subset_set_drop)

lemma fold_checkExtension_console_installed:
  assumes "(extId, info) \<in> set exts" and "toLowerCase extId \<in> set installedList"
  shows "colors Green @ symbols Success @ '' '' @ ext_name info @ '' is installed'' @ colors Reset
           \<in> set (drop (length (console st))
                        (console (fold (checkExtension env p installedList) exts st)))"
  using assms(1)
proof (induction exts arbitrary: st)
  case Nil
  then show ?case by simp
next
  case (Cons a exts)
  let ?f = "checkExtension env p installedList"
  let ?line = "colors Green @ symbols Success @ '' '' @ ext_name info @ '' is installed'' @ colors Reset"
  show ?case
  proof (cases "a = (extId, info)")
    case True
    have "prefix (console (?f a st)) (console (fold ?f exts (?f a st)))"
      by (rule fold_checkExtension_console_prefix)
    then obtain rest where "console (fold ?f exts (?f a st)) = console (?f a st) @ rest"
      by (auto simp: prefix_def)
    then have "console (fold ?f (a # exts) st) = console st @ [?line] @ rest"
      using True assms(2) by (simp add: checkExtension_installed)
    then show ?thesis by simp
  next
    case False
    with Cons.prems have "(extId, info) \<in> set exts"
      by simp
    then have in_tail: "?line \<in> set (drop (length (console (?f a st))) (console (fold ?f exts (?f a st))))"
      by (rule Cons.IH)
    have "prefix (console st) (console (?f a st))"
      by (rule checkExtension_console_prefix)
    then have "length (console st) \<le> length (console (?f a st))"
      by (rule prefix_length_le)
    then have "set (drop (length (console (?f a st))) (console (fold ?f exts (?f a st))))
                 \<subseteq> set (drop (length (console st)) (console (fold ?f exts (?f a st))))"
      by (rule set_drop_mono)
    with in_tail show ?thesis by auto
  qed
qed

lemma requiredExtensions_names:
  "distinct (map (\<lambda>e. ''Extension: '' @ ext_name (snd e)) requiredExtensions)"
  by (simp add: requiredExtensions_def)

lemma requiredExtensions_ids:
  "(extId, info) \<in> set requiredExtensions \<Longrightarrow> extId \<noteq> []"
  by (auto simp: requiredExtensions_def)

lemma label_in_filtered:
  assumes "distinct (map f xs)" and "e \<in> set xs"
  shows "f e \<in> set (map f (filter P xs)) \<longleftrightarrow> P e"
proof
  assume "f e \<in> set (map f (filter P xs))"
  then obtain e' where e': "e' \<in> set xs" "P e'" "f e' = f e"
    by auto
  from assms(1) have "inj_on f (set xs)"
    by (simp add: distinct_map)
  with e' assms(2) have "e' = e"
    by (auto dest: inj_onD)
  with e' show "P e" by simp
next
  assume "P e"
  with assms(2) show "f e \<in> set (map f (filter P xs))"
    by auto
qed

text \<open>With an editor path and a usable list of installed extensions, the probe is the
  loop over the table.\<close>

lemma checkExtensions_run:
  assumes "p \<noteq> []"
    and "execSync env (cmds st) ([CHR 0x22] @ p @ [CHR 0x22] @ '' --list-extensions'') = Some raw"
    and "trim raw \<noteq> []"
  shows "checkExtensions env (Some p) st =
     fold (checkExtension env p (split_nl (toLowerCase (trim raw)))) requiredExtensions
       (snd (executeCommand env ([CHR 0x22] @ p @ [CHR 0x22] @ '' --list-extensions'')
              (printHeader ''Checking VS Code Extensions'' st)))"
  using assms by (simp add: checkExtensions_def Let_def split_def)

text \<open>
  Claim C10. Whether a required extension counts as installed is decided by equality
  of whole lines after lowering the case: its label is filed under "passed" exactly when
  some line of the lowered list of installed extensions equals the lowered identifier,
  and under "failed" exactly when no line does. An identifier that only occurs inside a
  longer line is therefore reported as not installed.
\<close>

theorem extension_installed_iff_whole_line:
  assumes "p \<noteq> []"
    and "execSync env (cmds st) ([CHR 0x22] @ p @ [CHR 0x22] @ '' --list-extensions'') = Some raw"
    and "trim raw \<noteq> []"
    and "(extId, info) \<in> set requiredExtensions"
  shows "(''Extension: '' @ ext_name info
            \<in> set (drop (length (passed st)) (passed (checkExtensions env (Some p) st))))
          = (\<exists>line \<in> set (split_nl (toLowerCase (trim raw))). line = toLowerCase extId)
     \<and> (''Extension: '' @ ext_name info
            \<in> set (drop (length (failed st)) (failed (checkExtensions env (Some p) st))))
          = (\<not> (\<exists>line \<in> set (split_nl (toLowerCase (trim raw))). line = toLowerCase extId))"
proof -
  let ?L = "split_nl (toLowerCase (trim raw))"
  let ?label = "\<lambda>e. ''Extension: '' @ ext_name (snd e)"
  note run = checkExtensions_run [OF assms(1,2,3)]
  have p: "drop (length (passed st)) (passed (checkExtensions env (Some p) st))
             = map ?label (filter (\<lambda>e. toLowerCase (fst e) \<in> set ?L) requiredExtensions)"
    unfolding run by (simp add: fold_checkExtension_passed)
  have f: "drop (length (failed st)) (failed (checkExtensions env (Some p) st))
             = map ?label (filter (\<lambda>e. toLowerCase (fst e) \<notin> set ?L) requiredExtensions)"
    unfolding run by (simp add: fold_checkExtension_failed)
  have "?label (extId, info) \<in> set (map ?label (filter (\<lambda>e. toLowerCase (fst e) \<in> set ?L) requiredExtensions))
          \<longleftrightarrow> toLowerCase (fst (extId, info)) \<in> set ?L"
    using requiredExtensions_names assms(4) by (rule label_in_filtered)
  moreover have "?label (extId, info) \<in> set (map ?label (filter (\<lambda>e. toLowerCase (fst e) \<notin> set ?L) requiredExtensions))
          \<longleftrightarrow> toLowerCase (fst (extId, info)) \<notin> set ?L"
    using requiredExtensions_names assms(4) by (rule label_in_filtered)
  ultimately show ?thesis
    unfolding p f by auto
qed

text \<open>
  Claim C5. The match of extension identifiers ignores the case of letters: when some
  line of the list of installed extensions is a required identifier up to the case of
  its letters, the probe files that extension under "passed", does not file it under
  "failed", and prints the line that reports it as installed.
\<close>

theorem extension_match_ignores_case:
  assumes "p \<noteq> []"
    and "execSync env (cmds st) ([CHR 0x22] @ p @ [CHR 0x22] @ '' --list-extensions'') = Some raw"
    and "line \<in> set (split_nl (trim raw))"
    and "sameUpToCase line extId"
    and "(extId, info) \<in> set requiredExtensions"
  shows "''Extension: '' @ ext_name info
            \<in> set (drop (length (passed st)) (passed (checkExtensions env (Some p) st)))
     \<and> ''Extension: '' @ ext_name info
            \<notin> set (drop (length (failed st)) (failed (checkExtensions env (Some p) st)))
     \<and> colors Green @ symbols Success @ '' '' @ ext_name info @ '' is installed'' @ colors Reset
            \<in> set (drop (length (console st)) (console (checkExtensions env (Some p) st)))"
proof -
  let ?L = "split_nl (toLowerCase (trim raw))"
  let ?label = "\<lambda>e. ''Extension: '' @ ext_name (snd e)"
  let ?c = "[CHR 0x22] @ p @ [CHR 0x22] @ '' --list-extensions''"
  let ?st1 = "snd (executeCommand env ?c (printHeader ''Checking VS Code Extensions'' st))"
  have "length line = length extId"
    using assms(4) by (rule sameUpToCase_length)
  with requiredExtensions_ids [OF assms(5)] have "line \<noteq> []"
    by auto
  with assms(3) have nonempty: "trim raw \<noteq> []"
    by auto
  have "toLowerCase line \<in> set (map toLowerCase (split_nl (trim raw)))"
    using assms(3) by simp
  then have inst: "toLowerCase extId \<in> set ?L"
    using sameUpToCase_toLowerCase [OF assms(4)] by (simp add: split_nl_toLowerCase)
  note run = checkExtensions_run [OF assms(1,2) nonempty]
  have p: "drop (length (passed st)) (passed (checkExtensions env (Some p) st))
             = map ?label (filter (\<lambda>e. toLowerCase (fst e) \<in> set ?L) requiredExtensions)"
    unfolding run by (simp add: fold_checkExtension_passed)
  have f: "drop (length (failed st)) (failed (checkExtensions env (Some p) st))
             = map ?label (filter (\<lambda>e. toLowerCase (fst e) \<notin> set ?L) requiredExtensions)"
    unfolding run by (simp add: fold_checkExtension_failed)
  have in_p: "?label (extId, info) \<in> set (map ?label (filter (\<lambda>e. toLowerCase (fst e) \<in> set ?L) requiredExtensions))
          \<longleftrightarrow> toLowerCase (fst (extId, info)) \<in> set ?L"
    using requiredExtensions_names assms(5) by (rule label_in_filtered)
  have in_f: "?label (extId, info) \<in> set (map ?label (filter (\<lambda>e. toLowerCase (fst e) \<notin> set ?L) requiredExtensions))
          \<longleftrightarrow> toLowerCase (fst (extId, info)) \<notin> set ?L"
    using requiredExtensions_names assms(5) by (rule label_in_filtered)
  have "prefix (console st) (console ?st1)"
    by (simp add: printHeader_def)
  then have "length (console st) \<le> length (console ?st1)"
    by (rule prefix_length_le)
  then have "set (drop (length (console ?st1)) (console (checkExtensions env (Some p) st)))
           \<subseteq> set (drop (length (console st)) (console (checkExtensions env (Some p) st)))"
    by (rule set_drop_mono)
  moreover have "colors Green @ symbols Success @ '' '' @ ext_name info @ '' is installed'' @ colors Reset
           \<in> set (drop (length (console ?st1)) (console (checkExtensions env (Some p) st)))"
    unfolding run using assms(5) inst by (rule fold_checkExtension_console_installed)
  ultimately have line: "colors Green @ symbols Success @ '' '' @ ext_name info @ '' is installed'' @ colors Reset
           \<in> set (drop (length (console st)) (console (checkExtensions env (Some p) st)))"
    by (rule subsetD)
  from in_p in_f inst line show ?thesis
    unfolding p f by simp
qed

theorem extension_installed_iff_whole_line_witness:
  "''code'' \<noteq> []
   \<and> execSync insidersHost (cmds init) ([CHR 0x22] @ ''code'' @ [CHR 0x22] @ '' --list-extensions'')
       = Some (''eamodio.gitlens-insiders'' @ [CHR 0x0A] @ ''ritwickdey.LiveServer'' @ [CHR 0x0A])
   \<and> trim (''eamodio.gitlens-insiders'' @ [CHR 0x0A] @ ''ritwickdey.LiveServer'' @ [CHR 0x0A]) \<noteq> []
   \<and> (''eamodio.gitlens'',
        \<lparr>ext_name = ''GitLens'', ext_criticality = IMPORTANT,
         ext_reason = ''Enhances Git workflow and visualization''\<rparr>) \<in> set requiredExtensions
   \<and> includes_str ''eamodio.gitlens-insiders'' ''eamodio.gitlens''
   \<and> ''Extension: GitLens''
        \<notin> set (drop (length (passed init)) (passed (checkExtensions insidersHost (Some ''code'') init)))
   \<and> ''Extension: GitLens''
        \<in> set (drop (length (failed init)) (failed (checkExtensions insidersHost (Some ''code'') init)))"
proof -
  let ?raw = "''eamodio.gitlens-insiders'' @ [CHR 0x0A] @ ''ritwickdey.LiveServer'' @ [CHR 0x0A]"
  let ?info = "\<lparr>ext_name = ''GitLens'', ext_criticality = IMPORTANT,
         ext_reason = ''Enhances Git workflow and visualization''\<rparr>"
  have path: "''code'' \<noteq> []"
    by simp
  have answer: "execSync insidersHost (cmds init) ([CHR 0x22] @ ''code'' @ [CHR 0x22] @ '' --list-extensions'')
       = Some ?raw"
    by (simp add: insidersHost_def listCode_def host_def)
  have lowered: "split_nl (toLowerCase (trim ?raw)) = [''eamodio.gitlens-insiders'', ''ritwickdey.liveserver'']"
    by code_simp
  then have usable: "trim ?raw \<noteq> []"
    by (auto simp: toLowerCase_def)
  have entry: "(''eamodio.gitlens'', ?info) \<in> set requiredExtensions"
    by (simp add: requiredExtensions_def)
  have id: "toLowerCase ''eamodio.gitlens'' = ''eamodio.gitlens''"
    by code_simp
  have inside: "includes_str ''eamodio.gitlens-insiders'' ''eamodio.gitlens''"
    by simp
  have "''Extension: GitLens''
        \<notin> set (drop (length (passed init)) (passed (checkExtensions insidersHost (Some ''code'') init)))
     \<and> ''Extension: GitLens''
        \<in> set (drop (length (failed init)) (failed (checkExtensions insidersHost (Some ''code'') init)))"
    using extension_installed_iff_whole_line [OF path answer usable entry]
    unfolding lowered id by simp
  with path answer usable entry inside show ?thesis
    by blast
qed

theorem extension_match_ignores_case_witness:
  "''code'' \<noteq> []
   \<and> execSync capitalsHost (cmds init) ([CHR 0x22] @ ''code'' @ [CHR 0x22] @ '' --list-extensions'')
       = Some (''EAMODIO.GitLens'' @ [CHR 0x0A] @ ''ritwickdey.LiveServer'' @ [CHR 0x0A])
   \<and> ''EAMODIO.GitLens''
        \<in> set (split_nl (trim (''EAMODIO.GitLens'' @ [CHR 0x0A] @ ''ritwickdey.LiveServer'' @ [CHR 0x0A])))
   \<and> sameUpToCase ''EAMODIO.GitLens'' ''eamodio.gitlens''
   \<and> (''eamodio.gitlens'',
        \<lparr>ext_name = ''GitLens'', ext_criticality = IMPORTANT,
         ext_reason = ''Enhances Git workflow and visualization''\<rparr>) \<in> set requiredExtensions
   \<and> ''Extension: GitLens''
        \<in> set (drop (length (passed init)) (passed (checkExtensions capitalsHost (Some ''code'') init)))
   \<and> ''Extension: GitLens''
        \<notin> set (drop (length (failed init)) (failed (checkExtensions capitalsHost (Some ''code'') init)))"
proof -
  let ?raw = "''EAMODIO.GitLens'' @ [CHR 0x0A] @ ''ritwickdey.LiveServer'' @ [CHR 0x0A]"
  let ?info = "\<lparr>ext_name = ''GitLens'', ext_criticality = IMPORTANT,
         ext_reason = ''Enhances Git workflow and visualization''\<rparr>"
  have path: "''code'' \<noteq> []"
    by simp
  have answer: "execSync capitalsHost (cmds init) ([CHR 0x22] @ ''code'' @ [CHR 0x22] @ '' --list-extensions'')
       = Some ?raw"
    by (simp add: capitalsHost_def listCode_def host_def)
  have listed: "split_nl (trim ?raw) = [''EAMODIO.GitLens'', ''ritwickdey.LiveServer'']"
    by code_simp
  then have line: "''EAMODIO.GitLens'' \<in> set (split_nl (trim ?raw))"
    by simp
  have same: "sameUpToCase ''EAMODIO.GitLens'' ''eamodio.gitlens''"
    by code_simp
  have entry: "(''eamodio.gitlens'', ?info) \<in> set requiredExtensions"
    by (simp add: requiredExtensions_def)
  show ?thesis
    using path answer line same entry
      extension_match_ignores_case [OF path answer line same entry]
    by simp
qed

section \<open>Trimmed texts, joined lines and decimal digits\<close>

lemma trim_ends:
  "trim s = [] \<or> (\<not> isWhiteSpace (hd (trim s)) \<and> \<not> isWhiteSpace (last (trim s)))"
proof (cases "trim s = []")
  case True
  then show ?thesis by simp
next
  case False
  define u where "u = dropWhile isWhiteSpace s"
  define v where "v = dropWhile isWhiteSpace (rev u)"
  have t: "trim s = rev v"
    by (simp add: trim_def u_def v_def)
  with False have v: "v \<noteq> []"
    by simp
  then have "\<not> isWhiteSpace (hd v)"
    unfolding v_def by (rule hd_dropWhile)
  then have last_ok: "\<not> isWhiteSpace (last (trim s))"
    using v by (simp add: t last_rev)
  have "rev u = takeWhile isWhiteSpace (rev u) @ v"
    by (simp add: v_def)
  then have "last (rev u) = last v"
    using v by (metis last_appendR)
  moreover have u: "u \<noteq> []"
    using v by (auto simp: v_def)
  ultimately have "last v = hd u"
    by (simp add: last_rev)
  moreover have "\<not> isWhiteSpace (hd u)"
    using u unfolding u_def by (rule hd_dropWhile)
  ultimately have "\<not> isWhiteSpace (hd (trim s))"
    using v by (simp add: t hd_rev)
  with last_ok show ?thesis by simp
qed

lemma trim_fixed:
  assumes "t = [] \<or> (\<not> isWhiteSpace (hd t) \<and> \<not> isWhiteSpace (last t))"
  shows "trim t = t"
proof (cases "t = []")
  case True
  then show ?thesis by (simp add: trim_def)
next
  case False
  with assms have h: "\<not> isWhiteSpace (hd t)" and l: "\<not> isWhiteSpace (last t)"
    by simp_all
  from False h have "dropWhile isWhiteSpace t = t"
    by (simp add: dropWhile_eq_self_iff)
  moreover from False l have "dropWhile isWhiteSpace (rev t) = rev t"
    by (simp add: dropWhile_eq_self_iff hd_rev)
  ultimately show ?thesis
    by (simp add: trim_def)
qed

lemma trim_trim [simp]: "trim (trim s) = trim s"
  using trim_ends [of s] by (rule trim_fixed)

lemma trim_blank:
  assumes "\<forall>c \<in> set (trim s). isWhiteSpace c"
  shows "trim s = []"
proof (rule ccontr)
  assume ne: "trim s \<noteq> []"
  with trim_ends [of s] have "\<not> isWhiteSpace (hd (trim s))"
    by simp
  moreover from ne have "hd (trim s) \<in> set (trim s)"
    by simp
  ultimately show False
    using assms by blast
qed

lemma split_nl_line:
  "CHR 0x0A \<notin> set l \<Longrightarrow> split_nl (l @ CHR 0x0A # s) = l # split_nl s"
  by (induction l) (auto split: list.splits)

lemma split_nl_single: "CHR 0x0A \<notin> set l \<Longrightarrow> split_nl l = [l]"
  by (induction l) (auto split: list.splits)

lemma split_nl_join_nl:
  assumes "ls \<noteq> []" and "\<forall>l \<in> set ls. CHR 0x0A \<notin> set l"
  shows "split_nl (join_nl ls) = ls"
  using assms
proof (induction ls rule: join_nl.induct)
  case 1
  then show ?case by simp
next
  case (2 l)
  then show ?case by (simp add: split_nl_single)
next
  case (3 l k ks)
  then show ?case by (simp add: split_nl_line)
qed

lemma join_nl_not_Nil:
  "ls \<noteq> [] \<Longrightarrow> hd ls \<noteq> [] \<Longrightarrow> join_nl ls \<noteq> []"
  by (induction ls rule: join_nl.induct) simp_all

text \<open>\<open>numberToString\<close> writes a number in decimal: digits only, no leading zero, and
  the digits denote the number.\<close>

lemma digits_decimal:
  "n \<le> k \<Longrightarrow>
     digits (Suc k) n \<noteq> [] \<and> list_all isDigit (digits (Suc k) n)
     \<and> foldl (\<lambda>a d. 10 * a + (of_char d - 48)) 0 (digits (Suc k) n) = n
     \<and> (hd (digits (Suc k) n) = CHR ''0'' \<longrightarrow> n = 0)"
proof (induction k arbitrary: n)
  case 0
  then show ?case
    by (simp add: digit_def isDigit_def)
next
  case (Suc k)
  show ?case
  proof (cases "n < 10")
    case True
    have "digit n = CHR ''0'' \<longleftrightarrow> (of_char (digit n) :: nat) = of_char (CHR ''0'')"
      by (simp only: of_char_eq_iff)
    with True show ?thesis
      by (simp add: digit_def isDigit_def)
  next
    case False
    with Suc.prems have "n div 10 \<le> k"
      by simp
    then have ih: "digits (Suc k) (n div 10) \<noteq> [] \<and> list_all isDigit (digits (Suc k) (n div 10))
       \<and> foldl (\<lambda>a d. 10 * a + (of_char d - 48)) 0 (digits (Suc k) (n div 10)) = n div 10
       \<and> (hd (digits (Suc k) (n div 10)) = CHR ''0'' \<longrightarrow> n div 10 = 0)"
      by (rule Suc.IH)
    have last_digit: "isDigit (digit (n mod 10))" "(of_char (digit (n mod 10)) :: nat) - 48 = n mod 10"
      by (simp_all add: digit_def isDigit_def)
    from False have "n div 10 \<noteq> 0"
      by simp
    with ih False last_digit show ?thesis
      by (simp del: digits.simps add: digits.simps(2) [of "Suc k" n])
  qed
qed

lemma decimalOf_numberToString: "decimalOf (numberToString n) = Some n"
proof -
  note d = digits_decimal [OF order_refl, of n]
  have "hd (digits (Suc n) n) = CHR ''0'' \<longrightarrow> digits (Suc n) n = ''0''"
  proof
    assume "hd (digits (Suc n) n) = CHR ''0''"
    with d have "n = 0"
      by simp
    then show "digits (Suc n) n = ''0''"
      by (simp add: digit_def char_of_eq_iff)
  qed
  with d show ?thesis
    by (simp add: decimalOf_def numberToString_def)
qed

section \<open>The status of the working directory\<close>

text \<open>The last step of the repository probe, from the state in which it starts.\<close>

lemma checkStatus_cases:
  assumes "fst (executeCommand env ''git status --porcelain'' st) = Some status"
  shows "((\<forall>c \<in> set status. isWhiteSpace c) \<longrightarrow>
            console (checkStatus env st)
              = console st @ [colors Green @ symbols Success @ '' Working directory is clean'' @ colors Reset]
          \<and> passed (checkStatus env st) = passed st @ [''Clean working directory'']
          \<and> warnings (checkStatus env st) = warnings st)
     \<and> (\<forall>ls. ls \<noteq> [] \<and> (\<forall>l \<in> set ls. l \<noteq> [] \<and> CHR 0x0A \<notin> set l) \<and> status = join_nl ls \<longrightarrow>
            console (checkStatus env st)
              = console st @ [colors Yellow @ symbols Warning @ '' You have '' @ numberToString (length ls)
                                @ '' uncommitted change(s)'' @ colors Reset,
                              ''  Not critical, but good practice to commit regularly'',
                              []]
          \<and> warnings (checkStatus env st) = warnings st @ [''Uncommitted changes'']
          \<and> passed (checkStatus env st) = passed st)"
proof -
  let ?c = "''git status --porcelain''"
  from assms obtain raw where status: "status = trim raw"
    by (auto simp: executeCommand_def split: option.splits)
  have blank: "console (checkStatus env st)
              = console st @ [colors Green @ symbols Success @ '' Working directory is clean'' @ colors Reset]
          \<and> passed (checkStatus env st) = passed st @ [''Clean working directory'']
          \<and> warnings (checkStatus env st) = warnings st"
    if "\<forall>c \<in> set status. isWhiteSpace c"
  proof -
    from that have "status = []"
      unfolding status by (rule trim_blank)
    then show ?thesis
      using assms
      by (simp del: executeCommand_frame(9)
            add: checkStatus_def split_def printResult_def no_options_def showLink_def Let_def)
  qed
  have lines: "console (checkStatus env st)
              = console st @ [colors Yellow @ symbols Warning @ '' You have '' @ numberToString (length ls)
                                @ '' uncommitted change(s)'' @ colors Reset,
                              ''  Not critical, but good practice to commit regularly'',
                              []]
          \<and> warnings (checkStatus env st) = warnings st @ [''Uncommitted changes'']
          \<and> passed (checkStatus env st) = passed st"
    if ls: "ls \<noteq> [] \<and> (\<forall>l \<in> set ls. l \<noteq> [] \<and> CHR 0x0A \<notin> set l) \<and> status = join_nl ls" for ls
  proof -
    from ls have "hd ls \<noteq> []"
      by simp
    with ls have ne: "status \<noteq> []"
      by (simp add: join_nl_not_Nil)
    have "trim status = status"
      unfolding status by simp
    moreover have "split_nl status = ls"
      using ls by (simp add: split_nl_join_nl)
    ultimately have count: "length (split_nl (trim status)) = length ls"
      by simp
    have run: "checkStatus env st =
        push_warnings ''Uncommitted changes''
          (printResult Warning
             (''You have '' @ numberToString (length ls) @ '' uncommitted change(s)'')
             ''Not critical, but good practice to commit regularly''
             \<lparr>criticality = Some OPTIONAL,
              fix_opt = Some (Steps
                [''To see what files changed:'',
                 ''  git status'',
                 [],
                 ''To commit your changes:'',
                 ''  git add .'',
                 ''  git commit -m '' @ [CHR 0x22] @ ''Describe your changes'' @ [CHR 0x22],
                 ''  git push'',
                 [],
                 ''Note: This is OPTIONAL. Uncommitted changes don'' @ [CHR 0x27] @ ''t break anything.'']),
              link = None\<rparr> (snd (executeCommand env ?c st)))"
      using assms ne count
      by (simp del: executeCommand_frame(9) add: checkStatus_def split_def Let_def)
    show ?thesis
      unfolding run by (simp add: printResult_def showLink_def Let_def)
  qed
  from blank lines show ?thesis by blast
qed

text \<open>The steps of the probe before the status query: they run one command each, only add
  to the console and the lists, and file neither a clean working directory nor
  uncommitted changes.\<close>

lemma checkRemote_grows:
  "cmds (checkRemote env s) = cmds s @ [''git remote get-url origin'']
   \<and> prefix (console s) (console (checkRemote env s))
   \<and> (\<exists>p. passed (checkRemote env s) = passed s @ p \<and> ''Clean working directory'' \<notin> set p)
   \<and> (\<exists>w. warnings (checkRemote env s) = warnings s @ w \<and> ''Uncommitted changes'' \<notin> set w)"
  by (simp add: checkRemote_def split_def Let_def printResult_def no_options_def showLink_def
        guide_def)

lemma checkBranch_grows:
  "cmds (checkBranch env s) = cmds s @ [''git branch --show-current'']
   \<and> prefix (console s) (console (checkBranch env s))
   \<and> (\<exists>p. passed (checkBranch env s) = passed s @ p \<and> ''Clean working directory'' \<notin> set p)
   \<and> (\<exists>w. warnings (checkBranch env s) = warnings s @ w \<and> ''Uncommitted changes'' \<notin> set w)"
  by (simp add: checkBranch_def split_def Let_def printResult_def no_options_def showLink_def)

text \<open>
  Claim C6. In a directory that is a repository, let \<open>status\<close> be the result of the
  query \<open>git status --porcelain\<close>, which the repository probe runs after the queries for
  the remote and the branch. When \<open>status\<close> is blank, the last line the probe prints is
  the success "Working directory is clean", it files "Clean working directory" last under
  "passed" and files no uncommitted changes. When \<open>status\<close> consists of N non-empty lines
  (N at least 1), the probe ends with the warning "You have N uncommitted change(s)", N
  written in decimal, files "Uncommitted changes" last under "warnings" and files no clean
  working directory.
\<close>

theorem status_classification:
  assumes "existsSync env (path_join env [cwd env, ''.git''])"
    and "map_option trim
           (execSync env (cmds st @ [''git remote get-url origin'', ''git branch --show-current''])
              ''git status --porcelain'') = Some status"
  shows "cmds (checkLocalRepo env st)
           = cmds st @ [''git remote get-url origin'', ''git branch --show-current'',
                        ''git status --porcelain'']
     \<and> ((\<forall>c \<in> set status. isWhiteSpace c) \<longrightarrow>
            (\<exists>before. console (checkLocalRepo env st)
               = console st @ before
                 @ [colors Green @ symbols Success @ '' Working directory is clean'' @ colors Reset])
          \<and> (\<exists>p. passed (checkLocalRepo env st) = passed st @ p @ [''Clean working directory''])
          \<and> ''Uncommitted changes''
               \<notin> set (drop (length (warnings st)) (warnings (checkLocalRepo env st))))
     \<and> (\<forall>ls. ls \<noteq> [] \<and> (\<forall>l \<in> set ls. l \<noteq> [] \<and> CHR 0x0A \<notin> set l) \<and> status = join_nl ls \<longrightarrow>
            (\<exists>before. console (checkLocalRepo env st)
               = console st @ before
                 @ [colors Yellow @ symbols Warning @ '' You have '' @ numberToString (length ls)
                      @ '' uncommitted change(s)'' @ colors Reset,
                    ''  Not critical, but good practice to commit regularly'',
                    []])
          \<and> (\<exists>w. warnings (checkLocalRepo env st) = warnings st @ w @ [''Uncommitted changes''])
          \<and> ''Clean working directory''
               \<notin> set (drop (length (passed st)) (passed (checkLocalRepo env st))))"
proof -
  let ?s1 = "push_passed ''Git repository found''
               (printResult Success ''Current directory is a Git repository'' [] no_options
                 (printHeader ''Checking Local Repository'' st))"
  let ?s2 = "checkRemote env ?s1"
  let ?s3 = "checkBranch env ?s2"
  have run: "checkLocalRepo env st = checkStatus env ?s3"
    using assms(1) by (simp add: checkLocalRepo_def Let_def)
  note r = checkRemote_grows [of env ?s1]
  note b = checkBranch_grows [of env ?s2]
  have cmds3: "cmds ?s3 = cmds st @ [''git remote get-url origin'', ''git branch --show-current'']"
    using r b by simp
  have "prefix (console st) (console ?s1)"
    by (simp add: printResult_def no_options_def showLink_def printHeader_def Let_def)
  with r b have "prefix (console st) (console ?s3)"
    by (meson prefix_order.trans)
  then obtain before where console3: "console ?s3 = console st @ before"
    by (auto simp: prefix_def)
  from r b obtain p where passed3: "passed ?s3 = passed st @ p"
      and no_clean: "''Clean working directory'' \<notin> set p"
    by auto
  from r b obtain w where warnings3: "warnings ?s3 = warnings st @ w"
      and no_changes: "''Uncommitted changes'' \<notin> set w"
    by auto
  have query: "fst (executeCommand env ''git status --porcelain'' ?s3) = Some status"
    using assms(2) by (simp only: executeCommand_frame(9) cmds3)
  note cases = checkStatus_cases [OF query]
  have cmds: "cmds (checkLocalRepo env st)
           = cmds st @ [''git remote get-url origin'', ''git branch --show-current'',
                        ''git status --porcelain'']"
    unfolding run by (simp add: checkStatus_def split_def Let_def cmds3)
  have blank: "(\<exists>before. console (checkLocalRepo env st)
               = console st @ before
                 @ [colors Green @ symbols Success @ '' Working directory is clean'' @ colors Reset])
          \<and> (\<exists>p. passed (checkLocalRepo env st) = passed st @ p @ [''Clean working directory''])
          \<and> ''Uncommitted changes''
               \<notin> set (drop (length (warnings st)) (warnings (checkLocalRepo env st)))"
    if "\<forall>c \<in> set status. isWhiteSpace c"
  proof -
    from cases that have c: "console (checkStatus env ?s3)
              = console ?s3 @ [colors Green @ symbols Success @ '' Working directory is clean'' @ colors Reset]"
        "passed (checkStatus env ?s3) = passed ?s3 @ [''Clean working directory'']"
        "warnings (checkStatus env ?s3) = warnings ?s3"
      by blast+
    show ?thesis
      unfolding run c console3 passed3 warnings3 using no_changes by simp
  qed
  have lines: "(\<exists>before. console (checkLocalRepo env st)
               = console st @ before
                 @ [colors Yellow @ symbols Warning @ '' You have '' @ numberToString (length ls)
                      @ '' uncommitted change(s)'' @ colors Reset,
                    ''  Not critical, but good practice to commit regularly'',
                    []])
          \<and> (\<exists>w. warnings (checkLocalRepo env st) = warnings st @ w @ [''Uncommitted changes''])
          \<and> ''Clean working directory''
               \<notin> set (drop (length (passed st)) (passed (checkLocalRepo env st)))"
    if "ls \<noteq> [] \<and> (\<forall>l \<in> set ls. l \<noteq> [] \<and> CHR 0x0A \<notin> set l) \<and> status = join_nl ls" for ls
  proof -
    from cases that have c: "console (checkStatus env ?s3)
              = console ?s3 @ [colors Yellow @ symbols Warning @ '' You have '' @ numberToString (length ls)
                                @ '' uncommitted change(s)'' @ colors Reset,
                              ''  Not critical, but good practice to commit regularly'',
                              []]"
        "warnings (checkStatus env ?s3) = warnings ?s3 @ [''Uncommitted changes'']"
        "passed (checkStatus env ?s3) = passed ?s3"
      by blast+
    show ?thesis
      unfolding run c console3 passed3 warnings3 using no_clean by simp
  qed
  from cmds blank lines show ?thesis
    by blast
qed

theorem status_classification_witness:
  "existsSync dirtyHost (path_join dirtyHost [cwd dirtyHost, ''.git''])
   \<and> map_option trim
         (execSync dirtyHost (cmds init @ [''git remote get-url origin'', ''git branch --show-current''])
            ''git status --porcelain'')
       = Some (join_nl [''M sketch.js'', ''?? notes.txt''])
   \<and> cmds (checkLocalRepo dirtyHost init)
       = [''git remote get-url origin'', ''git branch --show-current'', ''git status --porcelain'']
   \<and> (\<exists>before. console (checkLocalRepo dirtyHost init)
         = before @ [colors Yellow @ symbols Warning @ '' You have 2 uncommitted change(s)'' @ colors Reset,
                     ''  Not critical, but good practice to commit regularly'',
                     []])
   \<and> (\<exists>w. warnings (checkLocalRepo dirtyHost init) = w @ [''Uncommitted changes''])
   \<and> ''Clean working directory'' \<notin> set (passed (checkLocalRepo dirtyHost init))
   \<and> existsSync cleanHost (path_join cleanHost [cwd cleanHost, ''.git''])
   \<and> map_option trim
         (execSync cleanHost (cmds init @ [''git remote get-url origin'', ''git branch --show-current''])
            ''git status --porcelain'')
       = Some []
   \<and> (\<exists>before. console (checkLocalRepo cleanHost init)
         = before @ [colors Green @ symbols Success @ '' Working directory is clean'' @ colors Reset])
   \<and> (\<exists>p. passed (checkLocalRepo cleanHost init) = p @ [''Clean working directory''])
   \<and> ''Uncommitted changes'' \<notin> set (warnings (checkLocalRepo cleanHost init))"
proof -
  have empty: "console init = []" "passed init = []" "warnings init = []" "cmds init = []"
    by (simp_all add: init_def)
  have dirty_repo: "existsSync dirtyHost (path_join dirtyHost [cwd dirtyHost, ''.git''])"
    by (simp add: dirtyHost_def host_def)
  have dirty: "map_option trim
         (execSync dirtyHost (cmds init @ [''git remote get-url origin'', ''git branch --show-current''])
            ''git status --porcelain'')
       = Some (join_nl [''M sketch.js'', ''?? notes.txt''])"
    by (simp add: dirtyHost_def host_def trim_def isWhiteSpace_def)
  have clean_repo: "existsSync cleanHost (path_join cleanHost [cwd cleanHost, ''.git''])"
    by (simp add: cleanHost_def host_def)
  have clean: "map_option trim
         (execSync cleanHost (cmds init @ [''git remote get-url origin'', ''git branch --show-current''])
            ''git status --porcelain'')
       = Some []"
    by (simp add: cleanHost_def host_def trim_def isWhiteSpace_def)
  have two: "numberToString (length [''M sketch.js'', ''?? notes.txt'']) = ''2''"
    by (simp add: numberToString_def digit_def char_of_eq_iff)
  note d = status_classification [OF dirty_repo dirty]
  from d have d_cmds: "cmds (checkLocalRepo dirtyHost init)
       = [''git remote get-url origin'', ''git branch --show-current'', ''git status --porcelain'']"
    by (simp add: empty)
  from d have "[''M sketch.js'', ''?? notes.txt''] \<noteq> []
        \<and> (\<forall>l \<in> set [''M sketch.js'', ''?? notes.txt'']. l \<noteq> [] \<and> CHR 0x0A \<notin> set l)
        \<and> join_nl [''M sketch.js'', ''?? notes.txt''] = join_nl [''M sketch.js'', ''?? notes.txt'']
      \<longrightarrow> (\<exists>before. console (checkLocalRepo dirtyHost init)
               = console init @ before
                 @ [colors Yellow @ symbols Warning @ '' You have ''
                      @ numberToString (length [''M sketch.js'', ''?? notes.txt''])
                      @ '' uncommitted change(s)'' @ colors Reset,
                    ''  Not critical, but good practice to commit regularly'',
                    []])
          \<and> (\<exists>w. warnings (checkLocalRepo dirtyHost init) = warnings init @ w @ [''Uncommitted changes''])
          \<and> ''Clean working directory''
               \<notin> set (drop (length (passed init)) (passed (checkLocalRepo dirtyHost init)))"
    by blast
  then have d_lines: "(\<exists>before. console (checkLocalRepo dirtyHost init)
         = before @ [colors Yellow @ symbols Warning @ '' You have 2 uncommitted change(s)'' @ colors Reset,
                     ''  Not critical, but good practice to commit regularly'',
                     []])
   \<and> (\<exists>w. warnings (checkLocalRepo dirtyHost init) = w @ [''Uncommitted changes''])
   \<and> ''Clean working directory'' \<notin> set (passed (checkLocalRepo dirtyHost init))"
    unfolding two empty by simp
  note c = status_classification [OF clean_repo clean]
  from c have c_lines: "(\<exists>before. console (checkLocalRepo cleanHost init)
         = before @ [colors Green @ symbols Success @ '' Working directory is clean'' @ colors Reset])
   \<and> (\<exists>p. passed (checkLocalRepo cleanHost init) = p @ [''Clean working directory''])
   \<and> ''Uncommitted changes'' \<notin> set (warnings (checkLocalRepo cleanHost init))"
    unfolding empty by simp
  from dirty_repo dirty d_cmds d_lines clean_repo clean c_lines show ?thesis
    by (intro conjI) blast+
qed

section \<open>Warnings and the severity buckets\<close>

lemma includes_str_sublist: "includes_str s t = sublist t s"
  by (induction s) (simp_all add: sublist_Cons_right)

lemma suffix_includes_str: "suffix t s \<Longrightarrow> includes_str s t"
  by (auto simp: includes_str_sublist suffix_def sublist_def intro: exI [of _ "[]"])

text \<open>\<open>printResult\<close> files a message under a severity only for a failure; for a
  warning it prints neither the severity nor the steps of the fix.\<close>

lemma printResult_warning:
  "printResult Warning m d opts st =
     (let st1 = (if d \<noteq> [] then console_log (''  '' @ d) (print (symbols Warning @ '' '' @ m) Yellow st)
                 else print (symbols Warning @ '' '' @ m) Yellow st);
          st2 = showLink opts st1
      in if truthy_fix (fix_opt opts) then console_log [] st2 else st2)"
  by (simp add: printResult_def Let_def)

text \<open>
  Claim C2 fails on the code. On a machine where the editor is installed but not on the
  search path, \<open>checkVSCode\<close> issues the warning "VS Code is NOT in PATH" with the
  severity OPTIONAL; the warning is filed under "warnings" and under no severity bucket.
\<close>

theorem warning_in_no_bucket:
  "passed (snd (checkVSCode directPathHost init)) = [''VS Code installed'']
   \<and> failed (snd (checkVSCode directPathHost init)) = []
   \<and> warnings (snd (checkVSCode directPathHost init)) = [''VS Code not in PATH'']
   \<and> critical (snd (checkVSCode directPathHost init)) = []
   \<and> important (snd (checkVSCode directPathHost init)) = []
   \<and> optional (snd (checkVSCode directPathHost init)) = []"
proof -
  have w: "executeCommand directPathHost ''which code'' st
             = (None, st\<lparr>cmds := cmds st @ [''which code'']\<rparr>)" for st
    by (simp add: executeCommand_def directPathHost_def host_def)
  have v: "executeCommand directPathHost ([CHR 0x22] @ ''/usr/bin/code'' @ [CHR 0x22] @ '' --version'') st
             = (Some (''1.85.0'' @ [CHR 0x0A] @ ''x64''),
                st\<lparr>cmds := cmds st @ [[CHR 0x22] @ ''/usr/bin/code'' @ [CHR 0x22] @ '' --version'']\<rparr>)" for st
    by (simp add: executeCommand_def directPathHost_def host_def trim_def isWhiteSpace_def)
  have linux: "platform directPathHost = ''linux''" "existsSync directPathHost ''/usr/bin/code''"
    by (simp_all add: directPathHost_def host_def)
  have found: "findVSCodePath directPathHost st
                 = (Some ''/usr/bin/code'', st\<lparr>cmds := cmds st @ [''which code'']\<rparr>)" for st
    by (simp add: findVSCodePath_def whichCode_def possiblePaths_def linux w)
  show ?thesis
    using v
    by (simp add: checkVSCode_def found vscodeInstalled_def whichCode_def linux w
          printResult_warning printResult_def no_options_def showLink_def Let_def init_def)
qed

text \<open>The success half of the e-mail check: an address that contains one of the two
  institutional texts, in particular one that ends with it, is reported as a plain
  success, and no warning is added.\<close>

lemma institutional_email_success:
  assumes "includes_str e ''@ocadu.ca'' \<or> includes_str e ''@ocad.ca''"
  shows "passed (checkUserEmail (Some e) st)
           = passed st @ [''Git user.email set'', ''OCADU email configured'']
     \<and> warnings (checkUserEmail (Some e) st) = warnings st
     \<and> failed (checkUserEmail (Some e) st) = failed st
     \<and> console (checkUserEmail (Some e) st)
           = console st @ [colors Green @ symbols Success @ '' Git user.email is configured'' @ colors Reset,
                           ''  Email: '' @ e,
                           colors Green @ symbols Success @ '' Using OCADU email address'' @ colors Reset]"
proof -
  from assms have "e \<noteq> []"
    by auto
  with assms show ?thesis
    by (simp add: checkUserEmail_def Let_def printResult_def no_options_def showLink_def)
qed

lemma institutional_suffix_success:
  assumes "suffix ''@ocadu.ca'' e \<or> suffix ''@ocad.ca'' e"
  shows "passed (checkUserEmail (Some e) st)
           = passed st @ [''Git user.email set'', ''OCADU email configured'']
     \<and> warnings (checkUserEmail (Some e) st) = warnings st"
proof -
  from assms have "includes_str e ''@ocadu.ca'' \<or> includes_str e ''@ocad.ca''"
    by (auto dest: suffix_includes_str)
  then show ?thesis
    using institutional_email_success [of e st] by simp
qed

text \<open>
  Claim C4 fails on the code. With the e-mail \<open>student@gmail.com\<close> configured,
  \<open>checkGit\<close> prints the warning as its message and its detail only: the severity and
  the steps of the fix, among them the line that repeats the current e-mail, are not
  printed, and the warning is filed under no severity bucket.
\<close>

theorem email_warning_not_echoed:
  "console (checkGit gmailHost init) =
     console (printHeader ''Checking Git Installation & Configuration'' init)
     @ [colors Green @ symbols Success @ '' Git is installed'' @ colors Reset,
        ''  git version 2.43.0'',
        colors Green @ symbols Success @ '' Git user.name is configured'' @ colors Reset,
        ''  Name: Sam Student'',
        colors Green @ symbols Success @ '' Git user.email is configured'' @ colors Reset,
        ''  Email: student@gmail.com'',
        colors Yellow @ symbols Warning @ '' Not using OCADU email address'' @ colors Reset,
        ''  Recommended for GitHub Education benefits'',
        []]
   \<and> warnings (checkGit gmailHost init) = [''Non-OCADU email'']
   \<and> optional (checkGit gmailHost init) = []"
proof -
  let ?st0 = "printHeader ''Checking Git Installation & Configuration'' init"
  have v: "executeCommand gmailHost ''git --version'' st
             = (Some ''git version 2.43.0'', st\<lparr>cmds := cmds st @ [''git --version'']\<rparr>)" for st
    by (simp add: executeCommand_def gmailHost_def host_def trim_def isWhiteSpace_def)
  have n: "executeCommand gmailHost ''git config --global user.name'' st
             = (Some ''Sam Student'', st\<lparr>cmds := cmds st @ [''git config --global user.name'']\<rparr>)" for st
    by (simp add: executeCommand_def gmailHost_def host_def trim_def isWhiteSpace_def)
  have e: "executeCommand gmailHost ''git config --global user.email'' st
             = (Some ''student@gmail.com'', st\<lparr>cmds := cmds st @ [''git config --global user.email'']\<rparr>)" for st
    by (simp add: executeCommand_def gmailHost_def host_def trim_def isWhiteSpace_def)
  have outside: "\<not> includes_str ''student@gmail.com'' ''@ocadu.ca''"
      "\<not> includes_str ''student@gmail.com'' ''@ocad.ca''"
    by simp_all
  show ?thesis
    by (simp add: checkGit_def v n e checkUserName_def checkUserEmail_def outside
          printResult_warning printResult_def no_options_def showLink_def Let_def init_def
          printHeader_def)
qed

section \<open>What the buckets do hold\<close>

lemma bucketCount_printing [simp]:
  "bucketCount (console_log s st) = bucketCount st"
  "bucketCount (print m c st) = bucketCount st"
  "bucketCount (printHeader t st) = bucketCount st"
  "bucketCount (push_passed x st) = bucketCount st"
  "bucketCount (push_failed x st) = bucketCount st"
  "bucketCount (push_warnings x st) = bucketCount st"
  "bucketCount (snd (executeCommand env command st)) = bucketCount st"
  by (simp_all add: bucketCount_def)

lemma bucketCount_push_bucket [simp]:
  "bucketCount (push_bucket k m st) = Suc (bucketCount st)"
  by (cases k) (simp_all add: bucketCount_def)

lemma bucketCount_showCriticality [simp]:
  "bucketCount (showCriticality s m opts st) =
     (if s = Failure \<and> criticality opts \<noteq> None then Suc (bucketCount st) else bucketCount st)"
  by (auto simp: showCriticality_def split: option.splits)

lemma bucketCount_showFix [simp]: "bucketCount (showFix s opts st) = bucketCount st"
  by (simp add: bucketCount_def)

lemma bucketCount_showLink [simp]: "bucketCount (showLink opts st) = bucketCount st"
  by (simp add: bucketCount_def)

lemma bucketCount_printResult [simp]:
  "bucketCount (printResult s m d opts st) =
     (if s = Failure \<and> criticality opts \<noteq> None then Suc (bucketCount st) else bucketCount st)"
  by (simp add: printResult_def Let_def)

text \<open>Every probe files as many messages under a severity as it files failures; a
  warning adds to neither.\<close>

lemma buckets_checkNode:
  "bucketCount st = length (failed st)
     \<Longrightarrow> bucketCount (checkNode env st) = length (failed (checkNode env st))"
  by (simp add: checkNode_def split_def Let_def)

lemma buckets_checkVSCode:
  assumes "bucketCount st = length (failed st)"
  shows "bucketCount (snd (checkVSCode env st)) = length (failed (snd (checkVSCode env st)))"
proof -
  have absent: "bucketCount (snd (vscodeNotInstalled env s)) = Suc (bucketCount s)
      \<and> length (failed (snd (vscodeNotInstalled env s))) = Suc (length (failed s))" for s
    by (simp add: vscodeNotInstalled_def Let_def)
  have present: "bucketCount (snd (vscodeInstalled env p v s)) = bucketCount s
      \<and> failed (snd (vscodeInstalled env p v s)) = failed s" for p v s
    by (simp add: vscodeInstalled_def split_def Let_def)
  have found: "bucketCount (snd (findVSCodePath env s)) = bucketCount s
      \<and> failed (snd (findVSCodePath env s)) = failed s" for s
    by (simp add: findVSCodePath_def split_def)
  let ?st0 = "printHeader ''Checking VS Code Installation'' st"
  obtain vp st1 where f: "findVSCodePath env ?st0 = (vp, st1)"
    by (cases "findVSCodePath env ?st0")
  with found [of ?st0] assms have c1: "bucketCount st1 = length (failed st1)"
    by simp
  show ?thesis
  proof (cases vp)
    case None
    then show ?thesis
      using absent [of st1] by (simp add: checkVSCode_def f c1)
  next
    case (Some p)
    let ?q = "[CHR 0x22] @ p @ [CHR 0x22] @ '' --version''"
    obtain v st2 where e: "executeCommand env ?q st1 = (v, st2)"
      by (cases "executeCommand env ?q st1")
    have "bucketCount (snd (executeCommand env ?q st1)) = bucketCount st1"
      "failed (snd (executeCommand env ?q st1)) = failed st1"
      by simp_all
    then have c2: "bucketCount st2 = length (failed st2)"
      by (simp only: e snd_conv c1)
    show ?thesis
    proof (cases "p = []")
      case True
      then show ?thesis
        using absent [of st1] by (simp add: checkVSCode_def f Some c1)
    next
      case False
      have run: "snd (checkVSCode env st) =
          snd (case v of None \<Rightarrow> vscodeNotInstalled env st2
               | Some version \<Rightarrow> if version = [] then vscodeNotInstalled env st2
                                 else vscodeInstalled env p version st2)"
        using False e by (simp add: checkVSCode_def f Some)
      show ?thesis
        unfolding run using absent [of st2] present [where s = st2 and p = p]
        by (cases v) (simp_all add: c2)
    qed
  qed
qed

lemma buckets_checkExtension:
  "bucketCount st = length (failed st)
     \<Longrightarrow> bucketCount (checkExtension env p installedList entry st)
           = length (failed (checkExtension env p installedList entry st))"
  by (cases entry) (simp add: checkExtension_def split_def Let_def)

lemma buckets_fold_checkExtension:
  "bucketCount st = length (failed st)
     \<Longrightarrow> bucketCount (fold (checkExtension env p installedList) exts st)
           = length (failed (fold (checkExtension env p installedList) exts st))"
  by (induction exts arbitrary: st) (simp_all add: buckets_checkExtension)

lemma buckets_checkExtensions:
  "bucketCount st = length (failed st)
     \<Longrightarrow> bucketCount (checkExtensions env vscodePath st)
           = length (failed (checkExtensions env vscodePath st))"
  by (simp add: checkExtensions_def Let_def skipNoVSCode_def skipNoList_def
        buckets_fold_checkExtension split_def split: option.splits prod.splits)

lemma buckets_checkGit:
  "bucketCount st = length (failed st)
     \<Longrightarrow> bucketCount (checkGit env st) = length (failed (checkGit env st))"
  by (simp add: checkGit_def split_def Let_def gitNotInstalled_def checkUserName_def
        checkUserEmail_def)

lemma buckets_checkLocalRepo:
  "bucketCount st = length (failed st)
     \<Longrightarrow> bucketCount (checkLocalRepo env st) = length (failed (checkLocalRepo env st))"
  by (simp add: checkLocalRepo_def Let_def notARepo_def checkStatus_def checkBranch_def
        checkRemote_def split_def)

lemma failures_fill_buckets:
  "bucketCount (runProbes env) = length (failed (runProbes env))"
proof -
  let ?s0 = "banner (console_clear init)"
  have "bucketCount ?s0 = length (failed ?s0)"
    by (simp add: bucketCount_def banner_def console_clear_def init_def)
  then have "bucketCount (checkNode env ?s0) = length (failed (checkNode env ?s0))"
    by (rule buckets_checkNode)
  then have "bucketCount (snd (checkVSCode env (checkNode env ?s0)))
               = length (failed (snd (checkVSCode env (checkNode env ?s0))))"
    by (rule buckets_checkVSCode)
  then have "bucketCount (checkExtensions env (fst (checkVSCode env (checkNode env ?s0)))
                            (snd (checkVSCode env (checkNode env ?s0))))
               = length (failed (checkExtensions env (fst (checkVSCode env (checkNode env ?s0)))
                            (snd (checkVSCode env (checkNode env ?s0)))))"
    by (rule buckets_checkExtensions)
  then have "bucketCount (checkGit env (checkExtensions env (fst (checkVSCode env (checkNode env ?s0)))
                            (snd (checkVSCode env (checkNode env ?s0)))))
               = length (failed (checkGit env (checkExtensions env (fst (checkVSCode env (checkNode env ?s0)))
                            (snd (checkVSCode env (checkNode env ?s0))))))"
    by (rule buckets_checkGit)
  then have "bucketCount (checkLocalRepo env (checkGit env (checkExtensions env (fst (checkVSCode env (checkNode env ?s0)))
                            (snd (checkVSCode env (checkNode env ?s0))))))
               = length (failed (checkLocalRepo env (checkGit env (checkExtensions env (fst (checkVSCode env (checkNode env ?s0)))
                            (snd (checkVSCode env (checkNode env ?s0)))))))"
    by (rule buckets_checkLocalRepo)
  then show ?thesis
    by (simp add: runProbes_def split_def printManualChecklist_def bucketCount_def)
qed

section \<open>How many items a run can collect\<close>

lemma itemCount_printing [simp]:
  "itemCount (console_log s st) = itemCount st"
  "itemCount (print m c st) = itemCount st"
  "itemCount (printHeader t st) = itemCount st"
  "itemCount (printResult r m d opts st) = itemCount st"
  "itemCount (snd (executeCommand env command st)) = itemCount st"
  by (simp_all add: itemCount_def)

lemma itemCount_push [simp]:
  "itemCount (push_passed x st) = Suc (itemCount st)"
  "itemCount (push_failed x st) = Suc (itemCount st)"
  "itemCount (push_warnings x st) = Suc (itemCount st)"
  by (simp_all add: itemCount_def)

lemma itemCount_checkNode: "itemCount (checkNode env st) = itemCount st + 2"
  by (simp add: checkNode_def split_def Let_def)

lemma itemCount_checkVSCode:
  "itemCount st \<le> itemCount (snd (checkVSCode env st))
   \<and> itemCount (snd (checkVSCode env st)) \<le> itemCount st + 2"
proof -
  let ?st0 = "printHeader ''Checking VS Code Installation'' st"
  have absent: "itemCount (snd (vscodeNotInstalled env s)) = itemCount s + 1" for s
    by (simp add: vscodeNotInstalled_def Let_def)
  have present: "itemCount s \<le> itemCount (snd (vscodeInstalled env p v s))
      \<and> itemCount (snd (vscodeInstalled env p v s)) \<le> itemCount s + 2" for p v s
    by (simp add: vscodeInstalled_def split_def Let_def)
  obtain vp st1 where f: "findVSCodePath env ?st0 = (vp, st1)"
    by (cases "findVSCodePath env ?st0")
  have "itemCount (snd (findVSCodePath env ?st0)) = itemCount ?st0"
    by (simp add: findVSCodePath_def split_def)
  then have c1: "itemCount st1 = itemCount st"
    by (simp add: f)
  show ?thesis
  proof (cases vp)
    case None
    then show ?thesis
      using absent [of st1] by (simp add: checkVSCode_def f c1)
  next
    case (Some p)
    let ?q = "[CHR 0x22] @ p @ [CHR 0x22] @ '' --version''"
    obtain v st2 where e: "executeCommand env ?q st1 = (v, st2)"
      by (cases "executeCommand env ?q st1")
    have "itemCount (snd (executeCommand env ?q st1)) = itemCount st1"
      by (rule itemCount_printing)
    then have c2: "itemCount st2 = itemCount st"
      by (simp only: e snd_conv c1)
    show ?thesis
    proof (cases "p = []")
      case True
      then show ?thesis
        using absent [of st1] by (simp add: checkVSCode_def f Some c1)
    next
      case False
      have run: "snd (checkVSCode env st) =
          snd (case v of None \<Rightarrow> vscodeNotInstalled env st2
               | Some version \<Rightarrow> if version = [] then vscodeNotInstalled env st2
                                 else vscodeInstalled env p version st2)"
        using False e by (simp add: checkVSCode_def f Some)
      show ?thesis
        unfolding run using absent [of st2] present [where s = st2 and p = p]
        by (cases v) (simp_all add: c2)
    qed
  qed
qed

lemma fold_checkExtension_warnings:
  "warnings (fold (checkExtension env p installedList) exts st) = warnings st"
proof (induction exts arbitrary: st)
  case Nil
  show ?case by simp
next
  case (Cons a exts)
  have "warnings (checkExtension env p installedList a st) = warnings st"
    by (cases a) (simp add: checkExtension_def split_def Let_def)
  then show ?case
    by (simp add: Cons.IH)
qed

lemma itemCount_fold_checkExtension:
  "itemCount (fold (checkExtension env p installedList) exts st) = itemCount st + length exts"
proof -
  have "length (filter (\<lambda>e. toLowerCase (fst e) \<in> set installedList) exts)
        + length (filter (\<lambda>e. toLowerCase (fst e) \<notin> set installedList) exts) = length exts"
    by (rule sum_length_filter_compl)
  then show ?thesis
    by (simp add: itemCount_def fold_checkExtension_passed fold_checkExtension_failed
          fold_checkExtension_warnings)
qed

lemma itemCount_checkExtensions:
  "itemCount st \<le> itemCount (checkExtensions env vscodePath st)
   \<and> itemCount (checkExtensions env vscodePath st) \<le> itemCount st + 5"
proof -
  have five: "length requiredExtensions = 5"
    by (simp add: requiredExtensions_def)
  show ?thesis
    by (simp add: checkExtensions_def Let_def skipNoVSCode_def skipNoList_def
          itemCount_fold_checkExtension five split_def
          split: option.splits prod.splits)
qed

lemma itemCount_checkGit:
  "itemCount st \<le> itemCount (checkGit env st) \<and> itemCount (checkGit env st) \<le> itemCount st + 4"
proof -
  have name: "itemCount (checkUserName n s) = itemCount s + 1" for n s
    by (simp add: checkUserName_def)
  have email: "itemCount s \<le> itemCount (checkUserEmail e s)
      \<and> itemCount (checkUserEmail e s) \<le> itemCount s + 2" for e s
    by (simp add: checkUserEmail_def Let_def)
  have absent: "itemCount (gitNotInstalled env s) = itemCount s + 1" for s
    by (simp add: gitNotInstalled_def Let_def)
  let ?st1 = "snd (executeCommand env ''git --version''
                    (printHeader ''Checking Git Installation & Configuration'' st))"
  let ?g = "fst (executeCommand env ''git --version''
                    (printHeader ''Checking Git Installation & Configuration'' st))"
  show ?thesis
  proof (cases "truthy ?g")
    case False
    then have "checkGit env st = gitNotInstalled env ?st1"
      by (simp del: executeCommand_frame(9) add: checkGit_def split_def)
    then show ?thesis
      by (simp add: absent)
  next
    case True
    let ?st2 = "push_passed ''Git installed''
                  (printResult Success ''Git is installed'' (the ?g) no_options ?st1)"
    let ?st3 = "snd (executeCommand env ''git config --global user.name'' ?st2)"
    let ?st4 = "snd (executeCommand env ''git config --global user.email'' ?st3)"
    let ?n = "fst (executeCommand env ''git config --global user.name'' ?st2)"
    let ?e = "fst (executeCommand env ''git config --global user.email'' ?st3)"
    from True have run: "checkGit env st = checkUserEmail ?e (checkUserName ?n ?st4)"
      by (simp del: executeCommand_frame(9) add: checkGit_def split_def Let_def)
    have "itemCount (checkUserName ?n ?st4) = itemCount st + 2"
      by (simp add: name)
    with email [of "checkUserName ?n ?st4" ?e] show ?thesis
      unfolding run by linarith
  qed
qed

lemma itemCount_checkLocalRepo:
  "itemCount st \<le> itemCount (checkLocalRepo env st)
   \<and> itemCount (checkLocalRepo env st) \<le> itemCount st + 5"
proof -
  have remote: "itemCount s \<le> itemCount (checkRemote env s)
      \<and> itemCount (checkRemote env s) \<le> itemCount s + 2" for s
    by (simp add: checkRemote_def split_def Let_def)
  have branch: "itemCount s \<le> itemCount (checkBranch env s)
      \<and> itemCount (checkBranch env s) \<le> itemCount s + 1" for s
    by (simp add: checkBranch_def split_def)
  have status: "itemCount (checkStatus env s) = itemCount s + 1" for s
    by (simp add: checkStatus_def split_def Let_def)
  have none: "itemCount (notARepo d s) = itemCount s + 1" for d s
    by (simp add: notARepo_def)
  let ?s1 = "push_passed ''Git repository found''
               (printResult Success ''Current directory is a Git repository'' [] no_options
                 (printHeader ''Checking Local Repository'' st))"
  have "itemCount ?s1 = itemCount st + 1"
    by simp
  with remote [of ?s1] branch [of "checkRemote env ?s1"]
  have "itemCount st \<le> itemCount (checkStatus env (checkBranch env (checkRemote env ?s1)))
      \<and> itemCount (checkStatus env (checkBranch env (checkRemote env ?s1))) \<le> itemCount st + 5"
    unfolding status by linarith
  then show ?thesis
    by (simp add: checkLocalRepo_def Let_def none)
qed

lemma itemCount_printManualChecklist [simp]:
  "itemCount (printManualChecklist st) = itemCount st"
  by (simp add: itemCount_def printManualChecklist_def)

lemma itemCount_runProbes: "2 \<le> itemCount (runProbes env) \<and> itemCount (runProbes env) \<le> 18"
proof -
  let ?s0 = "banner (console_clear init)"
  have zero: "itemCount ?s0 = 0"
    by (simp add: itemCount_def banner_def console_clear_def init_def)
  let ?s1 = "checkNode env ?s0"
  have s1: "itemCount ?s1 = 2"
    by (simp add: itemCount_checkNode zero)
  let ?s2 = "snd (checkVSCode env ?s1)"
  let ?v = "fst (checkVSCode env ?s1)"
  let ?s3 = "checkExtensions env ?v ?s2"
  let ?s4 = "checkGit env ?s3"
  let ?s5 = "checkLocalRepo env ?s4"
  have run: "runProbes env = printManualChecklist ?s5"
    by (simp add: runProbes_def split_def)
  note b2 = itemCount_checkVSCode [of ?s1 env]
  note b3 = itemCount_checkExtensions [of ?s2 env ?v]
  note b4 = itemCount_checkGit [of ?s3 env]
  note b5 = itemCount_checkLocalRepo [of ?s4 env]
  from s1 b2 b3 b4 b5 have "2 \<le> itemCount ?s5 \<and> itemCount ?s5 \<le> 18"
    by linarith
  then show ?thesis
    by (simp add: run)
qed

section \<open>Rounding to binary64\<close>

lemma roundTiesToEven_near: "\<bar>of_int (roundTiesToEven x) - x\<bar> \<le> 1 / 2"
proof -
  have "of_int \<lfloor>x\<rfloor> \<le> x" "x < of_int \<lfloor>x\<rfloor> + 1"
    by linarith+
  then show ?thesis
    unfolding roundTiesToEven_def Let_def by (auto simp: abs_le_iff)
qed

lemma doublings_spec:
  "0 < x \<Longrightarrow> x < 1 \<Longrightarrow> 1 \<le> x * 2 ^ k
     \<Longrightarrow> 1 \<le> x * 2 ^ doublings k x \<and> x * 2 ^ doublings k x < 2"
proof (induction k arbitrary: x)
  case 0
  then show ?case by simp
next
  case (Suc k)
  show ?case
  proof (cases "1 \<le> 2 * x")
    case True
    then have "doublings k (2 * x) = 0"
      by (cases k) simp_all
    with Suc.prems True show ?thesis
      by simp
  next
    case False
    with Suc.prems have "1 \<le> (2 * x) * 2 ^ doublings k (2 * x) \<and> (2 * x) * 2 ^ doublings k (2 * x) < 2"
      by (intro Suc.IH) (simp_all add: mult.assoc mult.left_commute)
    with Suc.prems show ?thesis
      by (simp add: mult.assoc mult.left_commute)
  qed
qed

lemma halvings_spec:
  "1 \<le> x \<Longrightarrow> x < 2 * 2 ^ k
     \<Longrightarrow> 1 \<le> x / 2 ^ halvings k x \<and> x / 2 ^ halvings k x < 2"
proof (induction k arbitrary: x)
  case 0
  then show ?case by simp
next
  case (Suc k)
  show ?case
  proof (cases "x < 2")
    case True
    with Suc.prems show ?thesis by simp
  next
    case False
    with Suc.prems have "1 \<le> (x / 2) / 2 ^ halvings k (x / 2) \<and> (x / 2) / 2 ^ halvings k (x / 2) < 2"
      by (intro Suc.IH) simp_all
    with False show ?thesis
      by (simp add: field_simps)
  qed
qed

lemma pow2_power_int: "pow2 e = power_int 2 e"
  by (simp add: pow2_def power_int_def power_one_over [symmetric] inverse_eq_divide)

lemma pow2_positive [simp]: "0 < pow2 e"
  by (simp add: pow2_power_int)

lemma pow2_shift: "pow2 (e - 52) = pow2 e / 2 ^ 52"
  by (simp add: pow2_power_int power_int_diff)

lemma binade_bounds:
  assumes "1 / 2 ^ 1022 \<le> x" and "x < 2 ^ 1024"
  shows "pow2 (binade x) \<le> x \<and> x < 2 * pow2 (binade x)"
proof (cases "x < 1")
  case True
  have pos: "0 < x"
    using assms(1) by (rule less_le_trans [rotated]) simp
  have "1 \<le> x * 2 ^ 1022"
    using assms(1) by (simp add: field_simps)
  with pos True have d: "1 \<le> x * 2 ^ doublings 1022 x \<and> x * 2 ^ doublings 1022 x < 2"
    by (rule doublings_spec)
  have e: "pow2 (binade x) = 1 / 2 ^ doublings 1022 x"
    using True by (simp add: binade_def pow2_def)
  from d have "1 / 2 ^ doublings 1022 x \<le> x"
    by (simp add: pos_divide_le_eq)
  moreover from d have "x < 2 / 2 ^ doublings 1022 x"
    by (simp add: pos_less_divide_eq)
  ultimately show ?thesis
    by (simp add: e)
next
  case False
  then have "1 \<le> x"
    by simp
  moreover have "x < 2 * 2 ^ 1023"
    using assms(2) by simp
  ultimately have h: "1 \<le> x / 2 ^ halvings 1023 x \<and> x / 2 ^ halvings 1023 x < 2"
    by (rule halvings_spec)
  have e: "pow2 (binade x) = 2 ^ halvings 1023 x"
    using False by (simp add: binade_def pow2_def)
  from h have "2 ^ halvings 1023 x \<le> x"
    by (simp add: pos_le_divide_eq)
  moreover from h have "x < 2 * 2 ^ halvings 1023 x"
    by (simp add: pos_divide_less_eq)
  ultimately show ?thesis
    by (simp add: e)
qed

text \<open>Rounding to binary64 moves a number in the normal range by at most the fraction
  \<open>2^-53\<close> of itself.\<close>

lemma binary64_near:
  assumes "1 / 2 ^ 1022 \<le> x" and "x < 2 ^ 1024"
  shows "\<bar>binary64 x - x\<bar> \<le> x / 2 ^ 53"
proof -
  define ulp where "ulp = pow2 (binade x - 52)"
  have pos: "0 < x"
    using assms(1) by (rule less_le_trans [rotated]) simp
  have ulp_pos: "0 < ulp"
    by (simp add: ulp_def)
  have "ulp = pow2 (binade x) / 2 ^ 52"
    unfolding ulp_def by (rule pow2_shift)
  also have "\<dots> \<le> x / 2 ^ 52"
    using binade_bounds [OF assms] by (simp add: divide_right_mono)
  finally have ulp_le: "ulp \<le> x / 2 ^ 52" .
  have b: "binary64 x = of_int (roundTiesToEven (x / ulp)) * ulp"
    using pos by (simp add: binary64_def ulp_def Let_def)
  have "\<bar>of_int (roundTiesToEven (x / ulp)) - x / ulp\<bar> * ulp \<le> (1 / 2) * ulp"
    using roundTiesToEven_near [of "x / ulp"] ulp_pos by (intro mult_right_mono) simp_all
  moreover have "\<bar>of_int (roundTiesToEven (x / ulp)) - x / ulp\<bar> * ulp
                   = \<bar>of_int (roundTiesToEven (x / ulp)) * ulp - x\<bar>"
  proof -
    have "\<bar>of_int (roundTiesToEven (x / ulp)) - x / ulp\<bar> * ulp
            = \<bar>(of_int (roundTiesToEven (x / ulp)) - x / ulp) * ulp\<bar>"
      using ulp_pos by (simp add: abs_mult)
    also have "(of_int (roundTiesToEven (x / ulp)) - x / ulp) * ulp
                 = of_int (roundTiesToEven (x / ulp)) * ulp - x"
      using ulp_pos by (simp add: field_simps)
    finally show ?thesis .
  qed
  ultimately have "\<bar>binary64 x - x\<bar> \<le> ulp / 2"
    by (simp add: b)
  also have "\<dots> \<le> (x / 2 ^ 52) / 2"
    using ulp_le by simp
  also have "\<dots> = x / 2 ^ 53"
    by simp
  finally show ?thesis .
qed

lemma le_18_cases:
  fixes t :: nat
  assumes "t \<le> 18"
  shows "t = 0 \<or> t = 1 \<or> t = 2 \<or> t = 3 \<or> t = 4 \<or> t = 5 \<or> t = 6 \<or> t = 7 \<or> t = 8 \<or> t = 9
      \<or> t = 10 \<or> t = 11 \<or> t = 12 \<or> t = 13 \<or> t = 14 \<or> t = 15 \<or> t = 16 \<or> t = 17 \<or> t = 18"
  using assms by (auto simp: le_Suc_eq numeral_eq_Suc)

text \<open>For a total of at most 18, the exact percentage lies half-way between two integers
  only for the eighths.\<close>

lemma half_cases:
  fixes p t :: nat
  assumes "p \<le> t" and "t \<le> 18" and "(200 * p + t) mod (2 * t) = 0" and "0 < t"
  shows "(t = 8 \<and> (p = 1 \<or> p = 3 \<or> p = 5 \<or> p = 7))
       \<or> (t = 16 \<and> (p = 2 \<or> p = 6 \<or> p = 10 \<or> p = 14))"
proof -
  from assms(1,2) have "p \<le> 18"
    by simp
  from le_18_cases [OF assms(2)] le_18_cases [OF this] show ?thesis
    using assms(1,3,4) by (elim disjE) simp_all
qed

lemma half_values:
  "Math_round (binary64 (binary64 (1 / 8) * 100)) = 13"
  "Math_round (binary64 (binary64 (3 / 8) * 100)) = 38"
  "Math_round (binary64 (binary64 (5 / 8) * 100)) = 63"
  "Math_round (binary64 (binary64 (7 / 8) * 100)) = 88"
  by code_simp+

lemma half_rates:
  fixes p t :: nat
  assumes "(t = 8 \<and> (p = 1 \<or> p = 3 \<or> p = 5 \<or> p = 7))
       \<or> (t = 16 \<and> (p = 2 \<or> p = 6 \<or> p = 10 \<or> p = 14))"
  shows "Math_round (binary64 (binary64 (of_nat p / of_nat t) * 100))
           = round (100 * of_nat p / of_nat t :: rat)"
  using assms by (elim disjE conjE) (simp_all add: half_values round_def)

text \<open>Away from the half-way points the two roundings cannot move the percentage across
  one: the error is below \<open>201 / 2^53\<close>, the distance to a half-way point at least
  \<open>1 / 36\<close>.\<close>

lemma rate_error:
  fixes p t :: nat
  assumes "0 < p" and "p \<le> t" and "t \<le> 18"
  shows "\<bar>binary64 (binary64 (of_nat p / of_nat t) * 100) - 100 * of_nat p / of_nat t\<bar>
           \<le> (201 / 2 ^ 53 :: rat)"
proof -
  define x :: rat where "x = of_nat p / of_nat t"
  define q where "q = binary64 x"
  define r where "r = binary64 (q * 100)"
  define eps :: rat where "eps = 1 / 2 ^ 53"
  have eps: "0 < eps" "eps \<le> 1 / 1000"
    by (simp_all add: eps_def)
  have t_pos: "(0 :: rat) < of_nat t"
    using assms(1,2) by simp
  have x_le: "x \<le> 1"
    unfolding x_def using assms(1,2) by simp
  have "(1 :: rat) / 18 \<le> 1 / of_nat t"
    using assms t_pos by (intro divide_left_mono) simp_all
  also have "\<dots> \<le> x"
    unfolding x_def using assms(1) t_pos by (intro divide_right_mono) simp_all
  finally have x_ge: "1 / 18 \<le> x" .
  have "\<bar>q - x\<bar> \<le> x / 2 ^ 53"
    unfolding q_def using x_ge x_le by (intro binary64_near) simp_all
  also have "x / 2 ^ 53 = x * eps"
    by (simp add: eps_def)
  also have "\<dots> \<le> 1 * eps"
    using x_le eps(1) by (intro mult_right_mono) simp_all
  finally have q_near: "\<bar>q - x\<bar> \<le> eps"
    by simp
  have q_le: "q \<le> 101 / 100" and q_ge: "1 / 100 \<le> q"
    using q_near x_le x_ge eps by linarith+
  have "\<bar>r - q * 100\<bar> \<le> q * 100 / 2 ^ 53"
    unfolding r_def using q_le q_ge by (intro binary64_near) simp_all
  also have "q * 100 / 2 ^ 53 = (q * 100) * eps"
    by (simp add: eps_def)
  also have "\<dots> \<le> 101 * eps"
    using q_le eps(1) by (intro mult_right_mono) simp_all
  finally have r_near: "\<bar>r - q * 100\<bar> \<le> 101 * eps" .
  have "\<bar>r - 100 * x\<bar> \<le> 201 * eps"
    using r_near q_near by linarith
  then show ?thesis
    by (simp add: r_def q_def x_def eps_def)
qed

lemma passRate_exact:
  fixes p t :: nat
  assumes "0 < t" and "p \<le> t" and "t \<le> 18"
  shows "Math_round (binary64 (binary64 (of_nat p / of_nat t) * 100))
           = round (100 * of_nat p / of_nat t :: rat)"
proof (cases "p = 0")
  case True
  then show ?thesis
    by (simp add: binary64_def Math_round_def round_def)
next
  case False
  show ?thesis
  proof (cases "(200 * p + t) mod (2 * t) = 0")
    case True
    with assms have "(t = 8 \<and> (p = 1 \<or> p = 3 \<or> p = 5 \<or> p = 7))
       \<or> (t = 16 \<and> (p = 2 \<or> p = 6 \<or> p = 10 \<or> p = 14))"
      by (intro half_cases)
    then show ?thesis
      by (rule half_rates)
  next
    case False
    define r where "r = binary64 (binary64 (of_nat p / of_nat t) * 100)"
    define X :: rat where "X = 100 * of_nat p / of_nat t"
    define N where "N = (200 * p + t) div (2 * t)"
    define m where "m = (200 * p + t) mod (2 * t)"
    define B :: rat where "B = of_nat (2 * t)"
    have B: "0 < B" "B \<le> 36"
      using assms by (simp_all add: B_def)
    have m: "1 \<le> m" "m < 2 * t"
      using False assms(1) by (simp_all add: m_def)
    have "200 * p + t = 2 * t * N + m"
      by (simp add: N_def m_def)
    then have "(of_nat (200 * p + t) :: rat) = of_nat (2 * t * N + m)"
      by simp
    then have split: "200 * of_nat p + of_nat t = B * of_nat N + (of_nat m :: rat)"
      by (simp add: B_def)
    have "X + 1 / 2 = (200 * of_nat p + of_nat t) / B"
      using assms(1) by (simp add: X_def B_def field_simps)
    also have "\<dots> = (B * of_nat N + of_nat m) / B"
      by (simp only: split)
    also have "\<dots> = of_nat N + of_nat m / B"
      using B(1) by (simp add: add_divide_distrib)
    finally have X: "X + 1 / 2 = of_nat N + of_nat m / B" .
    define F where "F = of_nat m / B"
    have "(1 :: rat) \<le> of_nat m" "(of_nat m :: rat) \<le> B - 1"
      using m by (simp_all add: B_def of_nat_diff [symmetric] del: of_nat_mult)
    then have frac: "(1 :: rat) / 36 \<le> F" "F \<le> 1 - 1 / 36"
      using B by (simp_all add: F_def field_simps)
    have XF: "X + 1 / 2 = of_nat N + F"
      using X by (simp add: F_def)
    have "\<bar>r - X\<bar> \<le> 201 / 2 ^ 53"
      unfolding r_def X_def using \<open>p \<noteq> 0\<close> assms(2,3) by (intro rate_error) simp_all
    moreover have "(201 :: rat) / 2 ^ 53 < 1 / 36"
      by simp
    ultimately have err: "\<bar>r - X\<bar> < 1 / 36"
      by (rule le_less_trans)
    have "of_nat N \<le> r + 1 / 2"
      using XF frac(1) err by linarith
    then have lo: "of_int (int N) \<le> r + 1 / 2"
      by simp
    have "r + 1 / 2 < of_nat N + 1"
      using XF frac(2) err by linarith
    then have hi: "r + 1 / 2 < of_int (int N) + 1"
      by simp
    from lo hi have "\<lfloor>r + 1 / 2\<rfloor> = int N"
      by (rule floor_unique)
    moreover have "\<lfloor>X + 1 / 2\<rfloor> = int N"
    proof (rule floor_unique)
      have "of_nat N \<le> X + 1 / 2"
        using XF frac(1) by linarith
      then show "of_int (int N) \<le> X + 1 / 2"
        by simp
      have "X + 1 / 2 < of_nat N + 1"
        using XF frac(2) by linarith
      then show "X + 1 / 2 < of_int (int N) + 1"
        by simp
    qed
    ultimately show ?thesis
      by (simp add: Math_round_def round_def r_def X_def)
  qed
qed

text \<open>Beyond the totals that a run can reach the two roundings do show: 23 passed
  items out of 40 are 57.5 percent, and the script prints 57.\<close>

lemma passRate_inexact_example:
  "Math_round (binary64 (binary64 (23 / 40) * 100)) = 57 \<and> round (100 * 23 / 40 :: rat) = 58"
  by code_simp

section \<open>The completion rate\<close>

lemma passRate_rounds:
  assumes "0 < itemCount st" and "itemCount st \<le> 18"
  shows "passRate st = round (100 * of_nat (length (passed st)) / of_nat (itemCount st) :: rat)"
proof -
  have "length (passed st) \<le> itemCount st"
    by (simp add: itemCount_def)
  with assms
  have "Math_round (binary64 (binary64 (of_nat (length (passed st)) / of_nat (itemCount st)) * 100))
          = round (100 * of_nat (length (passed st)) / of_nat (itemCount st) :: rat)"
    by (intro passRate_exact)
  with assms(1) show ?thesis
    by (simp add: passRate_def itemCount_def Let_def)
qed

lemma passRate_printHeader [simp]: "passRate (printHeader t st) = passRate st"
  by (simp add: passRate_def)

lemma printSummary_prints_rate:
  "CHR 0x0A # ''Completion Rate: '' @ numberToString (nat (passRate st)) @ ''%''
     \<in> set (console (printSummary st))"
proof -
  let ?line = "CHR 0x0A # ''Completion Rate: '' @ numberToString (nat (passRate st)) @ ''%''"
  let ?s1 = "printTally (printHeader ''Setup Verification Summary'' st)"
  have tally: "?line \<in> set (console ?s1)"
    by (simp add: printTally_def)
  have breakdown: "set (console x) \<subseteq> set (console (printBreakdown x))" for x
    by (auto simp: printBreakdown_def Let_def)
  have feedback: "set (console x) \<subseteq> set (console (printFeedback x))" for x
    by (auto simp: printFeedback_def feedbackPerfect_def feedbackOptional_def
          feedbackCritical_def feedbackRecommended_def)
  have foot: "set (console x) \<subseteq> set (console (summaryFoot x))" for x
    by (auto simp: summaryFoot_def)
  from tally breakdown [of ?s1] have "?line \<in> set (console (summaryHead st))"
    by (auto simp: summaryHead_def)
  with feedback [of "summaryHead st"] foot [of "printFeedback (summaryHead st)"]
  show ?thesis
    unfolding printSummary_def by blast
qed

text \<open>
  Claim C3. In every state in which \<open>main\<close> calls \<open>printSummary\<close> the total of
  passed, failed and warning items is positive, and the completion percentage that the
  summary computes with binary64 arithmetic and prints equals
  \<open>round (100 * passed / total)\<close>, halves rounded up. When all three counts are 0 the
  percentage is 0 and no division takes place.
\<close>

theorem completion_rate:
  "0 < itemCount (runProbes env)
   \<and> passRate (runProbes env)
       = round (100 * of_nat (length (passed (runProbes env))) / of_nat (itemCount (runProbes env)) :: rat)
   \<and> CHR 0x0A # ''Completion Rate: '' @ numberToString (nat (passRate (runProbes env))) @ ''%''
       \<in> set (console (main env))
   \<and> (\<forall>st. passed st = [] \<and> failed st = [] \<and> warnings st = [] \<longrightarrow> passRate st = 0)"
proof -
  have bounds: "0 < itemCount (runProbes env)" "itemCount (runProbes env) \<le> 18"
    using itemCount_runProbes [of env] by simp_all
  then have "passRate (runProbes env)
       = round (100 * of_nat (length (passed (runProbes env))) / of_nat (itemCount (runProbes env)) :: rat)"
    by (rule passRate_rounds)
  moreover have "CHR 0x0A # ''Completion Rate: '' @ numberToString (nat (passRate (runProbes env))) @ ''%''
       \<in> set (console (main env))"
    unfolding main_def by (rule printSummary_prints_rate)
  moreover have "\<forall>st. passed st = [] \<and> failed st = [] \<and> warnings st = [] \<longrightarrow> passRate st = 0"
    by (simp add: passRate_def)
  ultimately show ?thesis
    using bounds(1) by blast
qed

lemma gmailHost_counts:
  "length (passed (runProbes gmailHost)) = 3 \<and> itemCount (runProbes gmailHost) = 8"
  using gmailHost_lists by (simp add: itemCount_def)

theorem completion_rate_witness:
  "passed init = [] \<and> failed init = [] \<and> warnings init = [] \<and> passRate init = 0
   \<and> length (passed (runProbes gmailHost)) = 3 \<and> itemCount (runProbes gmailHost) = 8
   \<and> passRate (runProbes gmailHost) = 38"
proof -
  have "passRate (runProbes gmailHost) = round (100 * 3 / 8 :: rat)"
    using completion_rate [of gmailHost] gmailHost_counts by simp
  also have "\<dots> = 38"
    by (simp add: round_def)
  finally have "passRate (runProbes gmailHost) = 38" .
  moreover have "passed init = [] \<and> failed init = [] \<and> warnings init = [] \<and> passRate init = 0"
    using completion_rate [of gmailHost] by (simp add: init_def)
  ultimately show ?thesis
    using gmailHost_counts by simp
qed

end
